theory Spec2Isabelle
  imports Main "HOL-Library.Word"
begin

section \<open>Strings and values of the host language\<close>

text \<open>
  The program is TypeScript. Its strings are sequences of 16-bit code units, so a string
  is a list of 16-bit words; \<open>asc\<close> embeds an ASCII literal, and the Japanese literals
  of the source are written out as their UTF-16 code units.
\<close>

type_synonym unit16 = "16 word"
type_synonym jsstring = "unit16 list"

definition asc :: "string \<Rightarrow> jsstring" where
  "asc s = map of_char s"

text \<open>\<open>String.prototype.endsWith\<close>, \<open>startsWith\<close> and \<open>includes\<close>.\<close>

definition endsWith :: "jsstring \<Rightarrow> jsstring \<Rightarrow> bool" where
  "endsWith s suffix = (length suffix \<le> length s \<and> drop (length s - length suffix) s = suffix)"

definition startsWith :: "jsstring \<Rightarrow> jsstring \<Rightarrow> bool" where
  "startsWith s pre = (take (length pre) s = pre)"

fun includes_str :: "jsstring \<Rightarrow> jsstring \<Rightarrow> bool" where
  "includes_str [] sub = (sub = [])"
| "includes_str (c # cs) sub = (startsWith (c # cs) sub \<or> includes_str cs sub)"

text \<open>
  A call returns or throws: \<open>Inl e\<close> is the thrown value, \<open>Inr x\<close> the result. Two
  places of the text extractor depend on parts of the language that are not modelled
  (\<open>array_key\<close> and \<open>loop_bound\<close> below); a computation that can reach them has the
  third outcome \<open>Unmodelled\<close>.
\<close>

datatype js_error =
    Error jsstring  \<comment> \<open>\<open>new Error(message)\<close>\<close>
  | TypeError
  | RangeError
  | SyntaxError

type_synonym 'a throws = "js_error + 'a"

datatype 'a outcome = Returned 'a | Thrown js_error | Unmodelled

fun ebind :: "'a throws \<Rightarrow> ('a \<Rightarrow> 'b throws) \<Rightarrow> 'b throws" where
  "ebind (Inr x) f = f x"
| "ebind (Inl e) f = Inl e"

fun bindE :: "'a throws \<Rightarrow> ('a \<Rightarrow> 'b outcome) \<Rightarrow> 'b outcome" where
  "bindE (Inr x) f = f x"
| "bindE (Inl e) f = Thrown e"

fun bind :: "'a outcome \<Rightarrow> ('a \<Rightarrow> 'b outcome) \<Rightarrow> 'b outcome" where
  "bind (Returned x) f = f x"
| "bind (Thrown e) f = Thrown e"
| "bind Unmodelled f = Unmodelled"

text \<open>A loop over a list that threads a state and stops at the first failure.\<close>

fun forE :: "('a \<Rightarrow> 's \<Rightarrow> 's throws) \<Rightarrow> 'a list \<Rightarrow> 's \<Rightarrow> 's throws" where
  "forE f [] s = Inr s"
| "forE f (x # xs) s = ebind (f x s) (forE f xs)"

fun forM :: "('a \<Rightarrow> 's \<Rightarrow> 's outcome) \<Rightarrow> 'a list \<Rightarrow> 's \<Rightarrow> 's outcome" where
  "forM f [] s = Returned s"
| "forM f (x # xs) s = bind (f x s) (forM f xs)"

fun sequenceE :: "'a throws list \<Rightarrow> 'a list throws" where
  "sequenceE [] = Inr []"
| "sequenceE (m # ms) = ebind m (\<lambda>x. ebind (sequenceE ms) (\<lambda>xs. Inr (x # xs)))"

text \<open>
  The values that \<open>response.json()\<close> produces, and \<open>undefined\<close>. A number is an
  integer (the fractional numbers of a payload, coordinates and confidences, are outside
  this type, and so is the rounding of integers beyond \<open>2^53\<close>); an object is the
  list of its own properties in the order in which the language enumerates them, looked
  up by first match.
\<close>

datatype js =
    Undefined
  | Null
  | Bool bool
  | Num int
  | Str jsstring
  | Arr "js list"
  | Obj "(jsstring \<times> js) list"

text \<open>\<open>ToBoolean\<close>, and \<open>a || b\<close>.\<close>

fun truthy :: "js \<Rightarrow> bool" where
  "truthy Undefined = False"
| "truthy Null = False"
| "truthy (Bool b) = b"
| "truthy (Num n) = (n \<noteq> 0)"
| "truthy (Str s) = (s \<noteq> [])"
| "truthy (Arr xs) = True"
| "truthy (Obj kvs) = True"

definition or_else :: "js \<Rightarrow> js \<Rightarrow> js" where
  "or_else a b = (if truthy a then a else b)"

text \<open>
  \<open>v.name\<close>, for the field names of the payload: none of them is a property of a
  built-in prototype, so only an object's own property can answer. Reading a property of
  \<open>null\<close> or \<open>undefined\<close> throws. \<open>opt_get\<close> is \<open>v?.name\<close>, \<open>has_prop\<close> is
  \<open>name in v\<close> for a non-null value with \<open>typeof v === 'object'\<close>.
\<close>

fun get_prop :: "js \<Rightarrow> jsstring \<Rightarrow> js throws" where
  "get_prop Undefined name = Inl TypeError"
| "get_prop Null name = Inl TypeError"
| "get_prop (Obj kvs) name = Inr (case map_of kvs name of Some v \<Rightarrow> v | None \<Rightarrow> Undefined)"
| "get_prop v name = Inr Undefined"

fun opt_get :: "js \<Rightarrow> jsstring \<Rightarrow> js throws" where
  "opt_get Undefined name = Inr Undefined"
| "opt_get Null name = Inr Undefined"
| "opt_get v name = get_prop v name"

fun has_prop :: "js \<Rightarrow> jsstring \<Rightarrow> bool" where
  "has_prop (Obj kvs) name = (map_of kvs name \<noteq> None)"
| "has_prop v name = False"

text \<open>\<open>v.length\<close>, and \<open>v[i]\<close> for a loop counter \<open>i\<close>.\<close>

fun dec :: "nat \<Rightarrow> jsstring" where
  "dec n = (if n < 10 then [of_nat (48 + n)] else dec (n div 10) @ [of_nat (48 + n mod 10)])"

declare dec.simps [simp del]

fun js_length :: "js \<Rightarrow> js throws" where
  "js_length Undefined = Inl TypeError"
| "js_length Null = Inl TypeError"
| "js_length (Arr xs) = Inr (Num (int (length xs)))"
| "js_length (Str s) = Inr (Num (int (length s)))"
| "js_length (Obj kvs) = Inr (case map_of kvs (asc ''length'') of Some v \<Rightarrow> v | None \<Rightarrow> Undefined)"
| "js_length v = Inr Undefined"

fun elem_at :: "js \<Rightarrow> nat \<Rightarrow> js throws" where
  "elem_at Undefined i = Inl TypeError"
| "elem_at Null i = Inl TypeError"
| "elem_at (Arr xs) i = Inr (if i < length xs then xs ! i else Undefined)"
| "elem_at (Str s) i = Inr (if i < length s then Str [s ! i] else Undefined)"
| "elem_at (Obj kvs) i = Inr (case map_of kvs (dec i) of Some v \<Rightarrow> v | None \<Rightarrow> Undefined)"
| "elem_at v i = Inr Undefined"

text \<open>
  \<open>loop_bound v\<close> is the number of rounds of \<open>for (let i = 0; i < v; i++)\<close>, and
  \<open>v > 0\<close> holds exactly when it is positive: \<open>undefined\<close> converts to NaN, \<open>null\<close> to
  0, a boolean to 0 or 1. Converting a string, an array or an object to a number is not
  modelled.
\<close>

fun loop_bound :: "js \<Rightarrow> nat outcome" where
  "loop_bound (Num n) = Returned (nat n)"
| "loop_bound Undefined = Returned 0"
| "loop_bound Null = Returned 0"
| "loop_bound (Bool b) = Returned (if b then 1 else 0)"
| "loop_bound v = Unmodelled"

text \<open>
  \<open>for (const x of v)\<close>: an array yields its elements, a string its code points (a
  surrogate pair is one code point), and nothing else here is iterable.
\<close>

definition is_high :: "unit16 \<Rightarrow> bool" where
  "is_high c = (0xD800 \<le> c \<and> c \<le> 0xDBFF)"

definition is_low :: "unit16 \<Rightarrow> bool" where
  "is_low c = (0xDC00 \<le> c \<and> c \<le> 0xDFFF)"

fun code_points :: "jsstring \<Rightarrow> jsstring list" where
  "code_points [] = []"
| "code_points [c] = [[c]]"
| "code_points (c # d # r) =
     (if is_high c \<and> is_low d then [c, d] # code_points r else [c] # code_points (d # r))"

fun iterate :: "js \<Rightarrow> js list throws" where
  "iterate (Arr xs) = Inr xs"
| "iterate (Str s) = Inr (map Str (code_points s))"
| "iterate v = Inl TypeError"

text \<open>
  \<open>ToString\<close>, as template literals and \<open>join\<close> apply it. An array is its elements
  joined by commas, \<open>null\<close> and \<open>undefined\<close> elements counting as empty. An object
  parsed from JSON has no callable \<open>toString\<close> of its own: it prints through
  \<open>Object.prototype.toString\<close>, unless an own property named \<open>toString\<close> hides that
  method, and then the conversion throws.
\<close>

definition number_to_string :: "int \<Rightarrow> jsstring" where
  "number_to_string n = (if n < 0 then asc ''-'' @ dec (nat (- n)) else dec (nat n))"

fun intercalate :: "'a list \<Rightarrow> 'a list list \<Rightarrow> 'a list" where
  "intercalate sep [] = []"
| "intercalate sep [x] = x"
| "intercalate sep (x # y # r) = x @ sep @ intercalate sep (y # r)"

fun to_string :: "js \<Rightarrow> jsstring throws" where
  "to_string Undefined = Inr (asc ''undefined'')"
| "to_string Null = Inr (asc ''null'')"
| "to_string (Bool b) = Inr (if b then asc ''true'' else asc ''false'')"
| "to_string (Num n) = Inr (number_to_string n)"
| "to_string (Str s) = Inr s"
| "to_string (Arr xs) =
     ebind (sequenceE (map (\<lambda>x. if x = Undefined \<or> x = Null then Inr [] else to_string x) xs))
       (\<lambda>parts. Inr (intercalate (asc '','') parts))"
| "to_string (Obj kvs) =
     (if map_of kvs (asc ''toString'') \<noteq> None then Inl TypeError
      else Inr (asc ''[object Object]''))"

text \<open>
  \<open>Array.prototype.join\<close> on a list of elements: the texts of the elements, one
  entry for each, with the separator between them.
\<close>

definition row_entries :: "js list \<Rightarrow> jsstring list throws" where
  "row_entries xs =
     sequenceE (map (\<lambda>x. if x = Undefined \<or> x = Null then Inr [] else to_string x) xs)"

definition array_join :: "jsstring \<Rightarrow> js list \<Rightarrow> jsstring throws" where
  "array_join sep xs = ebind (row_entries xs) (\<lambda>parts. Inr (intercalate sep parts))"

text \<open>
  \<open>JSON.stringify\<close> without indentation; \<open>None\<close> is the result \<open>undefined\<close>. A
  string is quoted with the escapes of the standard: the short escapes, \<open>\u00xx\<close> for
  the other control characters and \<open>\udxxx\<close> for a surrogate that has no partner.
\<close>

definition hex_digit :: "nat \<Rightarrow> unit16" where
  "hex_digit n = (if n < 10 then of_nat (48 + n) else of_nat (87 + n))"

definition unicode_escape :: "unit16 \<Rightarrow> jsstring" where
  "unicode_escape c =
     (let n = unat c in
      asc [CHR 0x5C] @ asc ''u'' @
      [hex_digit (n div 4096), hex_digit (n div 256 mod 16), hex_digit (n div 16 mod 16),
       hex_digit (n mod 16)])"

fun quote_units :: "jsstring \<Rightarrow> jsstring" where
  "quote_units [] = []"
| "quote_units (c # cs) =
     (if c = 0x08 then asc [CHR 0x5C] @ asc ''b'' @ quote_units cs
      else if c = 0x09 then asc [CHR 0x5C] @ asc ''t'' @ quote_units cs
      else if c = 0x0A then asc [CHR 0x5C] @ asc ''n'' @ quote_units cs
      else if c = 0x0C then asc [CHR 0x5C] @ asc ''f'' @ quote_units cs
      else if c = 0x0D then asc [CHR 0x5C] @ asc ''r'' @ quote_units cs
      else if c = 0x22 then asc [CHR 0x5C, CHR 0x22] @ quote_units cs
      else if c = 0x5C then asc [CHR 0x5C, CHR 0x5C] @ quote_units cs
      else if c < 0x20 then unicode_escape c @ quote_units cs
      else if is_high c then
        (case cs of
           d # ds \<Rightarrow> if is_low d then c # d # quote_units ds else unicode_escape c @ quote_units cs
         | [] \<Rightarrow> unicode_escape c)
      else if is_low c then unicode_escape c @ quote_units cs
      else c # quote_units cs)"

definition quote_json :: "jsstring \<Rightarrow> jsstring" where
  "quote_json s = asc [CHR 0x22] @ quote_units s @ asc [CHR 0x22]"

fun json_stringify :: "js \<Rightarrow> jsstring option" where
  "json_stringify Undefined = None"
| "json_stringify Null = Some (asc ''null'')"
| "json_stringify (Bool b) = Some (if b then asc ''true'' else asc ''false'')"
| "json_stringify (Num n) = Some (number_to_string n)"
| "json_stringify (Str s) = Some (quote_json s)"
| "json_stringify (Arr xs) =
     Some (asc ''['' @
       intercalate (asc '','')
         (map (\<lambda>x. case json_stringify x of None \<Rightarrow> asc ''null'' | Some s \<Rightarrow> s) xs) @ asc '']'')"
| "json_stringify (Obj kvs) =
     Some (asc ''{'' @
       intercalate (asc '','')
         (concat (map (\<lambda>(k, v). case json_stringify v of None \<Rightarrow> []
                      | Some s \<Rightarrow> [quote_json k @ asc '':'' @ s]) kvs)) @ asc ''}'')"

text \<open>A template literal prints the result \<open>undefined\<close> of \<open>JSON.stringify\<close> as such.\<close>

definition stringify_text :: "js \<Rightarrow> jsstring" where
  "stringify_text v = (case json_stringify v of None \<Rightarrow> asc ''undefined'' | Some s \<Rightarrow> s)"

text \<open>\<open>String.prototype.trim\<close>: white space and line terminators of the language.\<close>

definition is_space :: "unit16 \<Rightarrow> bool" where
  "is_space c =
     (c \<in> {0x09, 0x0A, 0x0B, 0x0C, 0x0D, 0x20, 0xA0, 0x1680, 0x2028, 0x2029, 0x202F, 0x205F,
           0x3000, 0xFEFF} \<or> (0x2000 \<le> c \<and> c \<le> 0x200A))"

definition trim :: "jsstring \<Rightarrow> jsstring" where
  "trim s = rev (dropWhile is_space (rev (dropWhile is_space s)))"

definition nl :: jsstring where
  "nl = [0x0A]"

section \<open>Input validation (azure-utils)\<close>

definition validateFileType :: "jsstring \<Rightarrow> bool" where
  "validateFileType fileType =
     (let supportedTypes =
        [asc ''application/pdf'', asc ''image/jpeg'', asc ''image/jpg'', asc ''image/png'']
      in fileType \<in> set supportedTypes)"

text \<open>
  The regular expression \<open>/^[0-9a-fA-F]{32}$/\<close>: \<open>hexClass\<close> is the character class
  (three code-unit ranges), \<open>hexRun n\<close> matches exactly \<open>n\<close> characters of the class
  followed by the end of the input (the pattern has no \<open>m\<close> flag, so \<open>$\<close> is the end
  of the string).
\<close>

definition hexClass :: "unit16 \<Rightarrow> bool" where
  "hexClass c = ((0x30 \<le> c \<and> c \<le> 0x39) \<or> (0x61 \<le> c \<and> c \<le> 0x66) \<or> (0x41 \<le> c \<and> c \<le> 0x46))"

fun hexRun :: "nat \<Rightarrow> jsstring \<Rightarrow> bool" where
  "hexRun 0 s = (s = [])"
| "hexRun (Suc n) [] = False"
| "hexRun (Suc n) (c # cs) = (hexClass c \<and> hexRun n cs)"

definition validateApiKey :: "jsstring \<Rightarrow> bool" where
  "validateApiKey apiKey = (if apiKey = [] then False else hexRun 32 apiKey)"

text \<open>The hexadecimal digits in both cases, one by one.\<close>

definition hexDigits :: "unit16 set" where
  "hexDigits = set (asc ''0123456789abcdefABCDEF'')"

text \<open>
  \<open>normalizeAzureEndpoint\<close>. The URL parser belongs to the runtime, not to the
  repository: \<open>hostname_of s\<close> is \<open>None\<close> when \<open>new URL(s)\<close> throws and the parsed
  host name otherwise. The result pairs the warnings written to the console with the
  outcome.
\<close>

definition msg_endpoint_missing :: jsstring where
  "msg_endpoint_missing = asc ''Azure '' @ [0x30A8, 0x30F3, 0x30C9, 0x30DD, 0x30A4, 0x30F3, 0x30C8,
     0x304C, 0x6307, 0x5B9A, 0x3055, 0x308C, 0x3066, 0x3044, 0x307E, 0x305B, 0x3093]"

definition msg_endpoint_invalid :: jsstring where
  "msg_endpoint_invalid = [0x7121, 0x52B9, 0x306A] @ asc ''Azure'' @
     [0x30A8, 0x30F3, 0x30C9, 0x30DD, 0x30A4, 0x30F3, 0x30C8] @ asc ''URL'' @ [0x3067, 0x3059]"

definition msg_endpoint_warning :: jsstring where
  "msg_endpoint_warning = [0x30A8, 0x30F3, 0x30C9, 0x30DD, 0x30A4, 0x30F3, 0x30C8, 0x304C, 0x6A19,
     0x6E96, 0x7684, 0x306A] @ asc ''Azure Cognitive Services'' @
     [0x306E, 0x30C9, 0x30E1, 0x30A4, 0x30F3, 0x3067, 0x306F, 0x3042, 0x308A, 0x307E, 0x305B, 0x3093]"

definition normalizeAzureEndpoint ::
  "(jsstring \<Rightarrow> jsstring option) \<Rightarrow> jsstring \<Rightarrow> jsstring list \<times> jsstring throws" where
  "normalizeAzureEndpoint hostname_of endpoint =
     (if endpoint = [] then ([], Inl (Error msg_endpoint_missing))
      else case hostname_of endpoint of
        None \<Rightarrow> ([], Inl (Error msg_endpoint_invalid))
      | Some hostname \<Rightarrow>
          (if \<not> includes_str hostname (asc ''cognitiveservices.azure.com'')
             then [msg_endpoint_warning] else [],
           Inr (if endsWith endpoint (asc ''/'') then take (length endpoint - 1) endpoint
                     else endpoint)))"

section \<open>Error translation (azure-utils)\<close>

definition msg_401 :: jsstring where
  "msg_401 = asc ''Azure API'' @ [0x306E, 0x8A8D, 0x8A3C, 0x306B, 0x5931, 0x6557, 0x3057, 0x307E,
     0x3057, 0x305F, 0x3002] @ asc ''API'' @ [0x30AD, 0x30FC, 0x3092, 0x78BA, 0x8A8D, 0x3057,
     0x3066, 0x304F, 0x3060, 0x3055, 0x3044, 0x3002]"

definition msg_403 :: jsstring where
  "msg_403 = asc ''Azure API'' @ [0x3078, 0x306E, 0x30A2, 0x30AF, 0x30BB, 0x30B9, 0x304C, 0x62D2,
     0x5426, 0x3055, 0x308C, 0x307E, 0x3057, 0x305F, 0x3002] @ asc ''API'' @ [0x30AD, 0x30FC,
     0x306E, 0x6A29, 0x9650, 0x3092, 0x78BA, 0x8A8D, 0x3057, 0x3066, 0x304F, 0x3060, 0x3055,
     0x3044, 0x3002]"

definition msg_404 :: jsstring where
  "msg_404 = asc ''Azure API'' @ [0x306E, 0x30A8, 0x30F3, 0x30C9, 0x30DD, 0x30A4, 0x30F3, 0x30C8,
     0x304C, 0x898B, 0x3064, 0x304B, 0x308A, 0x307E, 0x305B, 0x3093, 0x3002, 0x30A8, 0x30F3,
     0x30C9, 0x30DD, 0x30A4, 0x30F3, 0x30C8] @ asc ''URL'' @ [0x3092, 0x78BA, 0x8A8D, 0x3057,
     0x3066, 0x304F, 0x3060, 0x3055, 0x3044, 0x3002]"

definition msg_429 :: jsstring where
  "msg_429 = asc ''Azure API'' @ [0x306E, 0x30EC, 0x30FC, 0x30C8, 0x5236, 0x9650, 0x3092, 0x8D85,
     0x3048, 0x307E, 0x3057, 0x305F, 0x3002, 0x3057, 0x3070, 0x3089, 0x304F, 0x5F85, 0x3063,
     0x3066, 0x304B, 0x3089, 0x518D, 0x8A66, 0x884C, 0x3057, 0x3066, 0x304F, 0x3060, 0x3055,
     0x3044, 0x3002]"

text \<open>The prefix of every other message: the service name and the word for "error".\<close>

definition api_error :: jsstring where
  "api_error = asc ''Azure API'' @ [0x30A8, 0x30E9, 0x30FC]"

text \<open>
  A reply of \<open>fetch\<close>, as far as the program reads it: \<open>json\<close> is \<open>None\<close> when
  \<open>response.json()\<close> rejects, \<open>operationLocation\<close> is the header of that name.
\<close>

record response =
  status :: nat
  statusText :: jsstring
  json :: "js option"
  operationLocation :: "jsstring option"

definition ok :: "response \<Rightarrow> bool" where
  "ok r = (200 \<le> status r \<and> status r \<le> 299)"

text \<open>
  The body of the \<open>try\<close> block of \<open>extractAzureErrorInfo\<close>, then the function.
  \<open>guard\<close> is the value of \<open>responseBody && responseBody.error\<close>: the body itself
  when it is falsy, its \<open>error\<close> otherwise.
\<close>

definition extractAzureErrorInfo_try :: "response \<Rightarrow> js \<Rightarrow> jsstring throws" where
  "extractAzureErrorInfo_try resp responseBody =
     (if status resp = 401 then Inr msg_401
      else if status resp = 403 then Inr msg_403
      else if status resp = 404 then Inr msg_404
      else if status resp = 429 then Inr msg_429
      else
        ebind (if truthy responseBody then get_prop responseBody (asc ''error'')
               else Inr responseBody) (\<lambda>guard.
        if truthy guard then
          let error = guard in
          (if (case error of Arr xs \<Rightarrow> True | Obj kvs \<Rightarrow> True | _ \<Rightarrow> False)
              \<and> has_prop error (asc ''code'') \<and> has_prop error (asc ''message'')
           then
             ebind (get_prop error (asc ''code'')) (\<lambda>code.
             ebind (to_string code) (\<lambda>code_text.
             ebind (get_prop error (asc ''message'')) (\<lambda>message.
             ebind (to_string message) (\<lambda>message_text.
             Inr (api_error @ asc '' ('' @ code_text @ asc ''): '' @ message_text)))))
           else
             (case error of
                Str s \<Rightarrow> Inr (api_error @ asc '': '' @ s)
              | _ \<Rightarrow> Inr (api_error @ asc '': '' @ stringify_text error)))
        else
          Inr (api_error @ asc '' ('' @ dec (status resp) @ asc ''): '' @ statusText resp)))"

definition extractAzureErrorInfo :: "response \<Rightarrow> js \<Rightarrow> jsstring" where
  "extractAzureErrorInfo resp responseBody =
     (case extractAzureErrorInfo_try resp responseBody of
        Inr message \<Rightarrow> message
      | Inl e \<Rightarrow> api_error @ asc '' ('' @ dec (status resp) @ asc '')'')"

section \<open>Text extraction (route)\<close>

definition page_header :: "jsstring \<Rightarrow> jsstring" where
  "page_header pageNumber =
     asc ''===== '' @ [0x30DA, 0x30FC, 0x30B8] @ asc '' '' @ pageNumber @ asc '' ====='' @ nl @ nl"

definition tables_header :: jsstring where
  "tables_header = asc ''===== '' @ [0x30C6, 0x30FC, 0x30D6, 0x30EB] @ asc '' ====='' @ nl @ nl"

definition table_title :: "nat \<Rightarrow> jsstring" where
  "table_title i = [0x30C6, 0x30FC, 0x30D6, 0x30EB] @ asc '' '' @ dec (i + 1) @ asc '':'' @ nl"

definition fields_header :: jsstring where
  "fields_header = asc ''===== '' @ [0x30D5, 0x30A9, 0x30FC, 0x30E0, 0x30D5, 0x30A3, 0x30FC, 0x30EB,
     0x30C9] @ asc '' ====='' @ nl @ nl"

definition unknown_field :: jsstring where
  "unknown_field = [0x4E0D, 0x660E, 0x306A, 0x30D5, 0x30A3, 0x30FC, 0x30EB, 0x30C9]"

definition fallback_text :: jsstring where
  "fallback_text = [0x7D50, 0x679C, 0x304B, 0x3089, 0x30C6, 0x30AD, 0x30B9, 0x30C8, 0x3092, 0x62BD,
     0x51FA, 0x3067, 0x304D, 0x307E, 0x305B, 0x3093, 0x3067, 0x3057, 0x305F]"

text \<open>The two loops over pages and their lines.\<close>

definition line_text :: "js \<Rightarrow> jsstring \<Rightarrow> jsstring outcome" where
  "line_text line extractedText =
     bindE (get_prop line (asc ''content'')) (\<lambda>content.
     bindE (to_string content) (\<lambda>content_text.
     Returned (extractedText @ content_text @ nl)))"

definition page_text :: "js \<Rightarrow> jsstring \<Rightarrow> jsstring outcome" where
  "page_text page extractedText =
     bindE (get_prop page (asc ''pageNumber'')) (\<lambda>pageNumber.
     bindE (to_string pageNumber) (\<lambda>number_text.
     bindE (get_prop page (asc ''lines'')) (\<lambda>page_lines.
     bindE (iterate (or_else page_lines (Arr []))) (\<lambda>lines.
     bind (forM line_text lines (extractedText @ page_header number_text)) (\<lambda>extractedText.
     Returned (extractedText @ nl))))))"

text \<open>
  \<open>Array(v)\<close> has length \<open>v\<close> when \<open>v\<close> is a number that is a valid length and throws
  when it is any other number; for a value that is not a number it is the one-element
  array of that value. \<open>make_grid\<close> is
  \<open>Array(rowCount).fill(null).map(() => Array(columnCount).fill(''))\<close>: the rows are
  separate arrays, and the inner constructor runs once per row, so not at all when there
  is no row.
\<close>

fun array_length :: "js \<Rightarrow> nat throws" where
  "array_length (Num n) = (if 0 \<le> n \<and> n < 2 ^ 32 then Inr (nat n) else Inl RangeError)"
| "array_length v = Inr 1"

definition make_grid :: "js \<Rightarrow> js \<Rightarrow> js list list throws" where
  "make_grid rowCount columnCount =
     ebind (array_length rowCount) (\<lambda>rows.
     if rows = 0 then Inr []
     else ebind (array_length columnCount) (\<lambda>columns.
       Inr (replicate rows (replicate columns (Str [])))))"

text \<open>
  The property key that a value denotes on an array. \<open>Index i\<close> is an array index;
  \<open>NoElement\<close> is a key that names neither an element nor any other property of an
  array (a number outside the index range, \<open>undefined\<close>, \<open>null\<close>, a boolean, the text
  of a plain object). A string or an array whose text is not an index may name a
  built-in property such as \<open>length\<close>: that is not modelled.
\<close>

datatype elem_key = Index nat | NoElement

fun digits_value :: "jsstring \<Rightarrow> nat \<Rightarrow> nat option" where
  "digits_value [] acc = Some acc"
| "digits_value (c # cs) acc =
     (if 0x30 \<le> c \<and> c \<le> 0x39 then digits_value cs (10 * acc + (unat c - 48)) else None)"

definition canonical_index :: "jsstring \<Rightarrow> nat option" where
  "canonical_index s =
     (if s = [] \<or> (hd s = 0x30 \<and> length s > 1) then None
      else case digits_value s 0 of
        Some n \<Rightarrow> if n < 2 ^ 32 - 1 then Some n else None
      | None \<Rightarrow> None)"

fun array_key :: "js \<Rightarrow> elem_key outcome" where
  "array_key (Num n) = Returned (if 0 \<le> n \<and> n < 2 ^ 32 - 1 then Index (nat n) else NoElement)"
| "array_key Undefined = Returned NoElement"
| "array_key Null = Returned NoElement"
| "array_key (Bool b) = Returned NoElement"
| "array_key (Obj kvs) = bindE (to_string (Obj kvs)) (\<lambda>s. Returned NoElement)"
| "array_key v =
     bindE (to_string v) (\<lambda>s.
       case canonical_index s of Some i \<Rightarrow> Returned (Index i) | None \<Rightarrow> Unmodelled)"

text \<open>
  \<open>tableData[rowIndex][columnIndex] = cell.content || ''\<close>. A row that does not exist
  is \<open>undefined\<close>, and the assignment throws. Writing past the end of a row lengthens
  it; the positions in between are holes, which read as \<open>undefined\<close>.
\<close>

fun row_at :: "js list list \<Rightarrow> elem_key \<Rightarrow> nat option" where
  "row_at tableData (Index i) = (if i < length tableData then Some i else None)"
| "row_at tableData NoElement = None"

fun set_elem :: "js list \<Rightarrow> elem_key \<Rightarrow> js \<Rightarrow> js list" where
  "set_elem row (Index i) v =
     (if i < length row then row[i := v] else row @ replicate (i - length row) Undefined @ [v])"
| "set_elem row NoElement v = row"

definition place_cell :: "js \<Rightarrow> js list list \<Rightarrow> js list list outcome" where
  "place_cell cell tableData =
     bindE (get_prop cell (asc ''rowIndex'')) (\<lambda>rowIndex.
     bindE (get_prop cell (asc ''columnIndex'')) (\<lambda>columnIndex.
     bind (array_key rowIndex) (\<lambda>row_key.
     case row_at tableData row_key of
       None \<Rightarrow> Thrown TypeError
     | Some r \<Rightarrow>
         bindE (get_prop cell (asc ''content'')) (\<lambda>content.
         bind (array_key columnIndex) (\<lambda>column_key.
         Returned (tableData[r := set_elem (tableData ! r) column_key (or_else content (Str []))]))))))"

definition row_text :: "js list \<Rightarrow> jsstring \<Rightarrow> jsstring outcome" where
  "row_text row extractedText =
     bindE (array_join (asc '' | '') row) (\<lambda>joined. Returned (extractedText @ joined @ nl))"

definition table_text :: "js \<Rightarrow> nat \<Rightarrow> jsstring \<Rightarrow> jsstring outcome" where
  "table_text tables i extractedText =
     bindE (elem_at tables i) (\<lambda>table.
     bindE (get_prop table (asc ''cells'')) (\<lambda>table_cells.
     bindE (get_prop table (asc ''rowCount'')) (\<lambda>table_rowCount.
     bindE (get_prop table (asc ''columnCount'')) (\<lambda>table_columnCount.
     bindE (make_grid (or_else table_rowCount (Num 0)) (or_else table_columnCount (Num 0)))
       (\<lambda>tableData.
     bindE (iterate (or_else table_cells (Arr []))) (\<lambda>cells.
     bind (forM place_cell cells tableData) (\<lambda>tableData.
     bind (forM row_text tableData (extractedText @ table_title i)) (\<lambda>extractedText.
     Returned (extractedText @ nl)))))))))"

definition pair_text :: "js \<Rightarrow> jsstring \<Rightarrow> jsstring outcome" where
  "pair_text pair extractedText =
     bindE (get_prop pair (asc ''key'')) (\<lambda>pair_key.
     bindE (opt_get pair_key (asc ''content'')) (\<lambda>key_content.
     bindE (get_prop pair (asc ''value'')) (\<lambda>pair_value.
     bindE (opt_get pair_value (asc ''content'')) (\<lambda>value_content.
     bindE (to_string (or_else key_content (Str unknown_field))) (\<lambda>key.
     bindE (to_string (or_else value_content (Str []))) (\<lambda>value.
     Returned (extractedText @ key @ asc '': '' @ value @ nl)))))))"

text \<open>The three sections, in the order of the source; then the function with its handler.\<close>

definition tables_section :: "js \<Rightarrow> jsstring \<Rightarrow> jsstring outcome" where
  "tables_section analyzeResult extractedText =
     bindE (opt_get analyzeResult (asc ''tables'')) (\<lambda>result_tables.
     let tables = or_else result_tables (Arr []) in
     bindE (js_length tables) (\<lambda>tables_length.
     bind (loop_bound tables_length) (\<lambda>n.
     if n > 0 then forM (table_text tables) [0..<n] (extractedText @ tables_header)
     else Returned extractedText)))"

definition fields_section :: "js \<Rightarrow> jsstring \<Rightarrow> jsstring outcome" where
  "fields_section analyzeResult extractedText =
     bindE (opt_get analyzeResult (asc ''keyValuePairs'')) (\<lambda>result_pairs.
     let keyValuePairs = or_else result_pairs (Arr []) in
     bindE (js_length keyValuePairs) (\<lambda>pairs_length.
     bind (loop_bound pairs_length) (\<lambda>n.
     if n > 0 then
       bindE (iterate keyValuePairs) (\<lambda>pairs.
       bind (forM pair_text pairs (extractedText @ fields_header)) (\<lambda>extractedText.
       Returned (extractedText @ nl)))
     else Returned extractedText)))"

definition extractText_try :: "js \<Rightarrow> jsstring outcome" where
  "extractText_try result =
     bindE (get_prop result (asc ''analyzeResult'')) (\<lambda>analyzeResult.
     bindE (opt_get analyzeResult (asc ''pages'')) (\<lambda>result_pages.
     bindE (iterate (or_else result_pages (Arr []))) (\<lambda>pages.
     bind (forM page_text pages []) (\<lambda>extractedText.
     bind (tables_section analyzeResult extractedText) (\<lambda>extractedText.
     bind (fields_section analyzeResult extractedText) (\<lambda>extractedText.
     Returned (trim extractedText)))))))"

definition extractTextFromAnalysisResult :: "js \<Rightarrow> jsstring outcome" where
  "extractTextFromAnalysisResult result =
     (case extractText_try result of
        Returned extractedText \<Rightarrow> Returned extractedText
      | Thrown e \<Rightarrow> Returned fallback_text
      | Unmodelled \<Rightarrow> Unmodelled)"

text \<open>
  The definitions above let a string have any length. A runtime does not: an operation
  whose result would be longer than its limit throws a \<open>RangeError\<close>. \<open>built limit s\<close>
  is the string \<open>s\<close> as the result of such an operation, and \<open>row_text_within limit\<close> is
  the body of the loop over the rows of a table in a runtime with the limit \<open>limit\<close>:
  \<open>join\<close> builds the joined row, one concatenation builds the line and another one the
  new text. An element whose conversion throws makes \<open>join\<close> throw whatever the
  lengths are, and the definition reports that error. \<open>max_string_length\<close> is the limit
  of V8, the engine of Node.js, on a 64-bit platform.
\<close>

definition built :: "nat \<Rightarrow> jsstring \<Rightarrow> jsstring throws" where
  "built limit s = (if length s \<le> limit then Inr s else Inl RangeError)"

definition row_text_within :: "nat \<Rightarrow> js list \<Rightarrow> jsstring \<Rightarrow> jsstring outcome" where
  "row_text_within limit row extractedText =
     bindE (array_join (asc '' | '') row) (\<lambda>joined.
     bindE (built limit joined) (\<lambda>joined.
     bindE (built limit (joined @ nl)) (\<lambda>line.
     bindE (built limit (extractedText @ line)) (\<lambda>extractedText.
     Returned extractedText))))"


section \<open>Structured extraction (azure-utils)\<close>

text \<open>
  \<open>v.map(f)\<close> for the value of \<open>page.lines || []\<close>: only an array has the method.
\<close>

fun array_map :: "(js \<Rightarrow> js throws) \<Rightarrow> js \<Rightarrow> js throws" where
  "array_map f (Arr xs) = ebind (sequenceE (map f xs)) (\<lambda>ys. Inr (Arr ys))"
| "array_map f v = Inl TypeError"

definition line_data :: "js \<Rightarrow> js throws" where
  "line_data line =
     ebind (get_prop line (asc ''content'')) (\<lambda>content.
     ebind (get_prop line (asc ''boundingBox'')) (\<lambda>boundingBox.
     Inr (Obj [(asc ''content'', content), (asc ''boundingBox'', boundingBox)])))"

definition page_data :: "js \<Rightarrow> js throws" where
  "page_data page =
     ebind (get_prop page (asc ''pageNumber'')) (\<lambda>pageNumber.
     ebind (get_prop page (asc ''width'')) (\<lambda>width.
     ebind (get_prop page (asc ''height'')) (\<lambda>height.
     ebind (get_prop page (asc ''unit'')) (\<lambda>unit.
     ebind (get_prop page (asc ''lines'')) (\<lambda>page_lines.
     ebind (array_map line_data (or_else page_lines (Arr []))) (\<lambda>lines.
     Inr (Obj [(asc ''pageNumber'', pageNumber), (asc ''width'', width), (asc ''height'', height),
               (asc ''unit'', unit), (asc ''lines'', lines)])))))))"

definition cell_data :: "js \<Rightarrow> js throws" where
  "cell_data cell =
     ebind (get_prop cell (asc ''rowIndex'')) (\<lambda>rowIndex.
     ebind (get_prop cell (asc ''columnIndex'')) (\<lambda>columnIndex.
     ebind (get_prop cell (asc ''rowSpan'')) (\<lambda>rowSpan.
     ebind (get_prop cell (asc ''columnSpan'')) (\<lambda>columnSpan.
     ebind (get_prop cell (asc ''content'')) (\<lambda>content.
     ebind (get_prop cell (asc ''boundingBox'')) (\<lambda>boundingBox.
     Inr (Obj [(asc ''rowIndex'', rowIndex), (asc ''columnIndex'', columnIndex),
               (asc ''rowSpan'', or_else rowSpan (Num 1)),
               (asc ''columnSpan'', or_else columnSpan (Num 1)),
               (asc ''content'', content), (asc ''boundingBox'', boundingBox)])))))))"

text \<open>\<open>push f\<close> is one round of a loop that appends \<open>f x\<close> to an array.\<close>

definition push :: "(js \<Rightarrow> js throws) \<Rightarrow> js \<Rightarrow> js list \<Rightarrow> js list throws" where
  "push f x acc = ebind (f x) (\<lambda>y. Inr (acc @ [y]))"

definition table_data :: "js \<Rightarrow> js throws" where
  "table_data table =
     ebind (get_prop table (asc ''rowCount'')) (\<lambda>rowCount.
     ebind (get_prop table (asc ''columnCount'')) (\<lambda>columnCount.
     ebind (get_prop table (asc ''cells'')) (\<lambda>table_cells.
     ebind (iterate (or_else table_cells (Arr []))) (\<lambda>cells.
     ebind (forE (push cell_data) cells []) (\<lambda>cells_out.
     Inr (Obj [(asc ''rowCount'', rowCount), (asc ''columnCount'', columnCount),
               (asc ''cells'', Arr cells_out)]))))))"

definition pair_data :: "js \<Rightarrow> js throws" where
  "pair_data pair =
     ebind (get_prop pair (asc ''key'')) (\<lambda>pair_key.
     ebind (opt_get pair_key (asc ''content'')) (\<lambda>key_content.
     ebind (get_prop pair (asc ''value'')) (\<lambda>pair_value.
     ebind (opt_get pair_value (asc ''content'')) (\<lambda>value_content.
     Inr (Obj [(asc ''key'', or_else key_content (Str [])),
               (asc ''value'', or_else value_content (Str []))])))))"

definition extractStructuredData_try :: "js \<Rightarrow> js throws" where
  "extractStructuredData_try analysisResult =
     ebind (get_prop analysisResult (asc ''analyzeResult'')) (\<lambda>analyzeResult.
     ebind (opt_get analyzeResult (asc ''pages'')) (\<lambda>result_pages.
     ebind (iterate (or_else result_pages (Arr []))) (\<lambda>pages.
     ebind (forE (push page_data) pages []) (\<lambda>pages_out.
     ebind (opt_get analyzeResult (asc ''tables'')) (\<lambda>result_tables.
     ebind (iterate (or_else result_tables (Arr []))) (\<lambda>tables.
     ebind (forE (push table_data) tables []) (\<lambda>tables_out.
     ebind (opt_get analyzeResult (asc ''keyValuePairs'')) (\<lambda>result_pairs.
     ebind (iterate (or_else result_pairs (Arr []))) (\<lambda>keyValuePairs.
     ebind (forE (push pair_data) keyValuePairs []) (\<lambda>pairs_out.
     Inr (Obj [(asc ''pages'', Arr pages_out), (asc ''tables'', Arr tables_out),
               (asc ''keyValuePairs'', Arr pairs_out)])))))))))))"

definition extractStructuredData :: "js \<Rightarrow> js" where
  "extractStructuredData analysisResult =
     (case extractStructuredData_try analysisResult of Inr result \<Rightarrow> result | Inl e \<Rightarrow> Null)"

section \<open>The analysis client (route)\<close>

definition msg_unsupported :: jsstring where
  "msg_unsupported = [0x30B5, 0x30DD, 0x30FC, 0x30C8, 0x3055, 0x308C, 0x3066, 0x3044, 0x306A,
     0x3044, 0x30D5, 0x30A1, 0x30A4, 0x30EB, 0x5F62, 0x5F0F, 0x3067, 0x3059]"

definition msg_invalid_key :: jsstring where
  "msg_invalid_key = [0x7121, 0x52B9, 0x306A] @ asc ''API'' @ [0x30AD, 0x30FC, 0x3067, 0x3059]"

definition msg_no_operation_location :: jsstring where
  "msg_no_operation_location = asc ''Operation-Location'' @ [0x30D8, 0x30C3, 0x30C0, 0x30FC,
     0x304C, 0x898B, 0x3064, 0x304B, 0x308A, 0x307E, 0x305B, 0x3093]"

definition msg_failed :: jsstring where
  "msg_failed = [0x5206, 0x6790, 0x306B, 0x5931, 0x6557, 0x3057, 0x307E, 0x3057, 0x305F] @ asc '': ''"

definition msg_timeout :: jsstring where
  "msg_timeout = [0x30BF, 0x30A4, 0x30E0, 0x30A2, 0x30A6, 0x30C8] @ asc '': '' @
     [0x30C9, 0x30AD, 0x30E5, 0x30E1, 0x30F3, 0x30C8, 0x5206, 0x6790, 0x306E, 0x5B8C, 0x4E86,
      0x3092, 0x5F85, 0x6A5F, 0x3067, 0x304D, 0x307E, 0x305B, 0x3093, 0x3067, 0x3057, 0x305F]"

text \<open>
  The network is the function \<open>fetch\<close>: its reply to the \<open>n\<close>-th call of a run (the
  submission is call 0, poll attempt \<open>k\<close> is call \<open>k\<close>) carrying a given request, or
  \<open>None\<close> when the call rejects. A run leaves a trace of what it did: the requests it
  sent, the delays it waited, the extractions it ran.
\<close>

datatype request =
    POST jsstring jsstring "jsstring option"  \<comment> \<open>URL, subscription key, body\<close>
  | GET jsstring jsstring  \<comment> \<open>URL, subscription key\<close>

datatype event =
    Fetch request
  | Delay nat
  | ExtractText js
  | ExtractStructured js

type_synonym network = "nat \<Rightarrow> request \<Rightarrow> response option"

definition maxAttempts :: nat where
  "maxAttempts = 10"

text \<open>
  One poll attempt after its delay, from the reply to the end of the loop body:
  \<open>Done r\<close> is the \<open>break\<close> with \<open>analysisResult = r\<close>, \<open>Continue\<close> the next round.
\<close>

datatype poll_step = Done js | Continue

definition error_body :: "response \<Rightarrow> js" where
  "error_body r = (case json r of Some b \<Rightarrow> b | None \<Rightarrow> Obj [])"

definition poll_reply :: "response option \<Rightarrow> poll_step throws" where
  "poll_reply reply =
     (case reply of
        None \<Rightarrow> Inl TypeError
      | Some statusResponse \<Rightarrow>
          if \<not> ok statusResponse then
            Inl (Error (extractAzureErrorInfo statusResponse (error_body statusResponse)))
          else
            (case json statusResponse of
               None \<Rightarrow> Inl SyntaxError
             | Some statusResult \<Rightarrow>
                 ebind (get_prop statusResult (asc ''status'')) (\<lambda>result_status.
                 if result_status = Str (asc ''succeeded'') then Inr (Done statusResult)
                 else if result_status = Str (asc ''failed'') then
                   ebind (get_prop statusResult (asc ''errors'')) (\<lambda>errors.
                   Inl (Error (msg_failed @ stringify_text errors)))
                 else Inr Continue)))"

function poll_loop :: "network \<Rightarrow> jsstring \<Rightarrow> jsstring \<Rightarrow> nat \<Rightarrow> event list \<times> js throws" where
  "poll_loop fetch location apiKey attempts =
     (if attempts < maxAttempts then
        (case poll_reply (fetch (Suc attempts) (GET location apiKey)) of
           Inl e \<Rightarrow> ([Delay 1000, Fetch (GET location apiKey)], Inl e)
         | Inr (Done statusResult) \<Rightarrow>
             ([Delay 1000, Fetch (GET location apiKey)], Inr statusResult)
         | Inr Continue \<Rightarrow>
             (case poll_loop fetch location apiKey (Suc attempts) of
                (events, analysisResult) \<Rightarrow>
                  (Delay 1000 # Fetch (GET location apiKey) # events, analysisResult)))
      else ([], Inr Null))"
  by pat_completeness auto
termination
  by (relation "measure (\<lambda>(fetch, location, apiKey, attempts). maxAttempts - attempts)")
    auto

declare poll_loop.simps [simp del]

definition analyze_url :: "jsstring \<Rightarrow> jsstring \<Rightarrow> jsstring" where
  "analyze_url baseEndpoint modelId =
     baseEndpoint @ asc ''/documentintelligence/documentModels/'' @ modelId @
     asc '':analyze?api-version=2023-07-31''"

definition submit_request :: "jsstring \<Rightarrow> jsstring \<Rightarrow> jsstring \<Rightarrow> jsstring \<Rightarrow> request" where
  "submit_request baseEndpoint modelId apiKey fileBase64 =
     POST (analyze_url baseEndpoint modelId) apiKey
       (json_stringify (Obj [(asc ''base64Source'', Str fileBase64)]))"

text \<open>The model identifier after the default for a blank one.\<close>

definition default_model :: "jsstring \<Rightarrow> jsstring" where
  "default_model modelId =
     (if modelId = [] \<or> trim modelId = [] then asc ''prebuilt-layout'' else modelId)"

text \<open>
  The body of the \<open>try\<close> block of \<open>analyzeDocument\<close>: the trace, and the content with
  the structured data or the thrown value. \<open>hostname_of\<close> is the URL parser of
  \<open>normalizeAzureEndpoint\<close>.
\<close>

definition analyzeDocument_try ::
  "(jsstring \<Rightarrow> jsstring option) \<Rightarrow> network \<Rightarrow> jsstring \<Rightarrow> jsstring \<Rightarrow> jsstring \<Rightarrow> jsstring \<Rightarrow>
     jsstring \<Rightarrow> jsstring \<Rightarrow> event list \<times> (jsstring \<times> js) outcome" where
  "analyzeDocument_try hostname_of fetch fileBase64 fileName fileType apiKey endpoint modelId =
     (if \<not> validateFileType fileType then ([], Thrown (Error msg_unsupported))
      else if \<not> validateApiKey apiKey then ([], Thrown (Error msg_invalid_key))
      else
        let modelId = default_model modelId in
        case snd (normalizeAzureEndpoint hostname_of endpoint) of
          Inl e \<Rightarrow> ([], Thrown e)
        | Inr baseEndpoint \<Rightarrow>
            let request = submit_request baseEndpoint modelId apiKey fileBase64 in
            (case fetch 0 request of
               None \<Rightarrow> ([Fetch request], Thrown TypeError)
             | Some response \<Rightarrow>
                 if \<not> ok response then
                   ([Fetch request],
                    Thrown (Error (extractAzureErrorInfo response (error_body response))))
                 else if json response = None then ([Fetch request], Thrown SyntaxError)
                 else
                   (case operationLocation response of
                      None \<Rightarrow> ([Fetch request], Thrown (Error msg_no_operation_location))
                    | Some location \<Rightarrow>
                        if location = [] then
                          ([Fetch request], Thrown (Error msg_no_operation_location))
                        else
                          (case poll_loop fetch location apiKey 0 of
                             (events, Inl e) \<Rightarrow> (Fetch request # events, Thrown e)
                           | (events, Inr analysisResult) \<Rightarrow>
                               if \<not> truthy analysisResult then
                                 (Fetch request # events, Thrown (Error msg_timeout))
                               else
                                 (Fetch request # events @
                                    [ExtractText analysisResult, ExtractStructured analysisResult],
                                  bind (extractTextFromAnalysisResult analysisResult)
                                    (\<lambda>extractedText.
                                  Returned (extractedText, extractStructuredData analysisResult)))))))"

text \<open>
  The function with its handler. \<open>Success content structuredData\<close> is the object with
  \<open>success: true\<close>; \<open>Failure e\<close> is the one with \<open>success: false\<close>, whose \<open>error\<close>
  is the message of the caught \<open>e\<close>.
\<close>

datatype analysis = Success jsstring js | Failure js_error

definition analyzeDocument ::
  "(jsstring \<Rightarrow> jsstring option) \<Rightarrow> network \<Rightarrow> jsstring \<Rightarrow> jsstring \<Rightarrow> jsstring \<Rightarrow> jsstring \<Rightarrow>
     jsstring \<Rightarrow> jsstring \<Rightarrow> event list \<times> analysis outcome" where
  "analyzeDocument hostname_of fetch fileBase64 fileName fileType apiKey endpoint modelId =
     (case analyzeDocument_try hostname_of fetch fileBase64 fileName fileType apiKey endpoint modelId of
        (events, Returned (content, structuredData)) \<Rightarrow>
          (events, Returned (Success content structuredData))
      | (events, Thrown e) \<Rightarrow> (events, Returned (Failure e))
      | (events, Unmodelled) \<Rightarrow> (events, Unmodelled))"

section \<open>Reading a run\<close>

text \<open>
  The vocabulary of the statements about polling. \<open>reply_status\<close> is the \<open>status\<close>
  field of a reply that is a success with a JSON body; a reply is pending when it has
  such a status and that is neither of the two terminal ones. \<open>polls\<close> and
  \<open>extractions\<close> count the poll requests and the text extractions of a trace;
  \<open>paced\<close> says that every delay is the fixed one and is followed at once by a poll,
  and that no poll comes without its delay.
\<close>

definition reply_status :: "response option \<Rightarrow> js option" where
  "reply_status reply =
     (case reply of
        None \<Rightarrow> None
      | Some r \<Rightarrow>
          if ok r then
            (case json r of
               None \<Rightarrow> None
             | Some v \<Rightarrow> (case get_prop v (asc ''status'') of Inr s \<Rightarrow> Some s | Inl e \<Rightarrow> None))
          else None)"

definition pending :: "response option \<Rightarrow> bool" where
  "pending reply =
     (case reply_status reply of
        None \<Rightarrow> False
      | Some s \<Rightarrow> s \<noteq> Str (asc ''succeeded'') \<and> s \<noteq> Str (asc ''failed''))"

definition succeeded :: "response option \<Rightarrow> bool" where
  "succeeded reply = (reply_status reply = Some (Str (asc ''succeeded'')))"

fun is_poll :: "event \<Rightarrow> bool" where
  "is_poll (Fetch (GET url key)) = True"
| "is_poll e = False"

fun is_extraction :: "event \<Rightarrow> bool" where
  "is_extraction (ExtractText r) = True"
| "is_extraction e = False"

definition polls :: "event list \<Rightarrow> nat" where
  "polls events = length (filter is_poll events)"

definition extractions :: "event list \<Rightarrow> nat" where
  "extractions events = length (filter is_extraction events)"

fun paced :: "event list \<Rightarrow> bool" where
  "paced [] = True"
| "paced [Delay d] = False"
| "paced (Delay d # e # events) = (d = 1000 \<and> is_poll e \<and> paced events)"
| "paced (e # events) = (\<not> is_poll e \<and> paced events)"

text \<open>The trace of \<open>n\<close> rounds of the polling loop.\<close>

definition round_events :: "jsstring \<Rightarrow> jsstring \<Rightarrow> nat \<Rightarrow> event list" where
  "round_events location apiKey n = concat (replicate n [Delay 1000, Fetch (GET location apiKey)])"

text \<open>
  The submission went through and named the operation \<open>location\<close>: the inputs are
  valid, the endpoint normalises, and the reply to the POST is a success with a JSON body
  and a non-empty \<open>Operation-Location\<close> header.
\<close>

definition submitted ::
  "(jsstring \<Rightarrow> jsstring option) \<Rightarrow> network \<Rightarrow> jsstring \<Rightarrow> jsstring \<Rightarrow> jsstring \<Rightarrow> jsstring \<Rightarrow>
     jsstring \<Rightarrow> jsstring \<Rightarrow> bool" where
  "submitted hostname_of fetch fileBase64 fileType apiKey endpoint modelId location =
     (validateFileType fileType \<and> validateApiKey apiKey \<and>
      (case snd (normalizeAzureEndpoint hostname_of endpoint) of
         Inl e \<Rightarrow> False
       | Inr baseEndpoint \<Rightarrow>
           (case fetch 0 (submit_request baseEndpoint (default_model modelId) apiKey fileBase64) of
              None \<Rightarrow> False
            | Some r \<Rightarrow>
                ok r \<and> json r \<noteq> None \<and> operationLocation r = Some location \<and> location \<noteq> [])))"

section \<open>Tables, as the specification describes them\<close>

text \<open>
  A sparse cell is a row index, a column index and a content. \<open>cell_view\<close> reads one
  from a cell of the payload whose indices are numbers that are not negative and whose
  content is a string or is absent. \<open>spec_grid\<close> is the dense grid of the
  specification: position \<open>(r, c)\<close> holds the content of the last cell of the list with
  these indices, and the empty string when there is none. \<open>spec_rows\<close> joins the
  values of a row with \<open>" | "\<close> and the rows with newlines.
\<close>

type_synonym sparse_cell = "nat \<times> nat \<times> jsstring"

definition cell_view :: "js \<Rightarrow> sparse_cell option" where
  "cell_view cell =
     (case (get_prop cell (asc ''rowIndex''), get_prop cell (asc ''columnIndex''),
            get_prop cell (asc ''content'')) of
        (Inr (Num r), Inr (Num c), Inr (Str s)) \<Rightarrow>
          if 0 \<le> r \<and> 0 \<le> c then Some (nat r, nat c, s) else None
      | (Inr (Num r), Inr (Num c), Inr Undefined) \<Rightarrow>
          if 0 \<le> r \<and> 0 \<le> c then Some (nat r, nat c, []) else None
      | _ \<Rightarrow> None)"

definition last_content :: "sparse_cell list \<Rightarrow> nat \<Rightarrow> nat \<Rightarrow> jsstring" where
  "last_content cells r c =
     (let hits = filter (\<lambda>(r', c', s). r' = r \<and> c' = c) cells
      in if hits = [] then [] else snd (snd (last hits)))"

definition spec_grid :: "nat \<Rightarrow> nat \<Rightarrow> sparse_cell list \<Rightarrow> jsstring list list" where
  "spec_grid rowCount columnCount cells =
     map (\<lambda>r. map (\<lambda>c. last_content cells r c) [0..<columnCount]) [0..<rowCount]"

definition spec_rows :: "jsstring list list \<Rightarrow> jsstring" where
  "spec_rows grid = intercalate nl (map (intercalate (asc '' | '')) grid)"

text \<open>
  One write into a grid of strings, and the shape of a grid of \<open>n\<close> rows of \<open>m\<close>
  values.
\<close>

definition write_cell :: "jsstring list list \<Rightarrow> sparse_cell \<Rightarrow> jsstring list list" where
  "write_cell g x = (case x of (r, c, s) \<Rightarrow> g[r := (g ! r)[c := s]])"

definition rect :: "nat \<Rightarrow> nat \<Rightarrow> 'a list list \<Rightarrow> bool" where
  "rect n m g = (length g = n \<and> (\<forall>row \<in> set g. length row = m))"

text \<open>A result that holds nothing but a list of tables, or of key-value pairs.\<close>

definition only_tables :: "js list \<Rightarrow> js" where
  "only_tables tables = Obj [(asc ''analyzeResult'', Obj [(asc ''tables'', Arr tables)])]"

definition only_pairs :: "js list \<Rightarrow> js" where
  "only_pairs pairs = Obj [(asc ''analyzeResult'', Obj [(asc ''keyValuePairs'', Arr pairs)])]"

text \<open>A computation that returns a value.\<close>

definition returns :: "'a outcome \<Rightarrow> bool" where
  "returns m = (\<exists>x. m = Returned x)"

section \<open>Example inputs\<close>

text \<open>Replies of the service and error bodies.\<close>

definition server_error :: response where
  "server_error = \<lparr>status = 500, statusText = asc ''Internal Server Error'', json = None,
     operationLocation = None\<rparr>"

definition unauthorized :: response where
  "unauthorized = \<lparr>status = 401, statusText = asc ''Unauthorized'', json = None,
     operationLocation = None\<rparr>"

definition coded_error :: "(jsstring \<times> js) list" where
  "coded_error = [(asc ''code'', Str (asc ''X'')), (asc ''message'', Str (asc ''Y''))]"

text \<open>An error whose code is an object with a property named \<open>toString\<close>.\<close>

definition unprintable_error :: "(jsstring \<times> js) list" where
  "unprintable_error =
     [(asc ''code'', Obj [(asc ''toString'', Num 1)]), (asc ''message'', Str (asc ''Y''))]"

text \<open>A result whose list of pages holds \<open>null\<close>.\<close>

definition null_page :: js where
  "null_page = Obj [(asc ''analyzeResult'', Obj [(asc ''pages'', Arr [Null])])]"

text \<open>
  The table of the specification's example: two rows, two columns, the cells
  \<open>(0, 0, "A")\<close> and \<open>(1, 1, "B")\<close>; and a result that holds it.
\<close>

definition cell_of :: "int \<Rightarrow> int \<Rightarrow> jsstring \<Rightarrow> js" where
  "cell_of r c s = Obj [(asc ''rowIndex'', Num r), (asc ''columnIndex'', Num c), (asc ''content'', Str s)]"

definition example_table :: js where
  "example_table =
     Obj [(asc ''rowCount'', Num 2), (asc ''columnCount'', Num 2),
          (asc ''cells'', Arr [cell_of 0 0 (asc ''A''), cell_of 1 1 (asc ''B'')])]"

definition example_result :: js where
  "example_result =
     Obj [(asc ''status'', Str (asc ''succeeded'')),
          (asc ''analyzeResult'', Obj [(asc ''tables'', Arr [example_table])])]"

text \<open>
  A service that accepts the submission and answers \<open>running\<close> until attempt \<open>k\<close>,
  where it answers with the result; and one that never gets there.
\<close>

definition accepted :: response where
  "accepted = \<lparr>status = 202, statusText = asc ''Accepted'', json = Some (Obj []),
     operationLocation = Some (asc ''https://x.cognitiveservices.azure.com/operations/1'')\<rparr>"

definition running :: response where
  "running = \<lparr>status = 200, statusText = asc ''OK'',
     json = Some (Obj [(asc ''status'', Str (asc ''running''))]), operationLocation = None\<rparr>"

definition finished :: response where
  "finished = \<lparr>status = 200, statusText = asc ''OK'', json = Some example_result,
     operationLocation = None\<rparr>"

definition slow_service :: "nat \<Rightarrow> network" where
  "slow_service k n request =
     (if n = 0 then Some accepted else if n < k then Some running else Some finished)"

definition stuck_service :: network where
  "stuck_service n request = (if n = 0 then Some accepted else Some running)"

definition azure_host :: "jsstring \<Rightarrow> jsstring option" where
  "azure_host s = Some (asc ''x.cognitiveservices.azure.com'')"

text \<open>
  Two form fields: one whose key has the empty content, one that has no value; and a
  result that holds both.
\<close>

definition unnamed_field :: js where
  "unnamed_field =
     Obj [(asc ''key'', Obj [(asc ''content'', Str [])]),
          (asc ''value'', Obj [(asc ''content'', Str (asc ''Tanaka''))])]"

definition blank_field :: js where
  "blank_field = Obj [(asc ''key'', Obj [(asc ''content'', Str (asc ''Name''))])]"

definition fields_result :: js where
  "fields_result = only_pairs [unnamed_field, blank_field]"







section \<open>Properties\<close>

subsection \<open>File types\<close>

text \<open>
  C8. \<open>validateFileType\<close> is true exactly on the four MIME strings
  application/pdf, image/jpeg, image/jpg and image/png; it is a pure predicate.
\<close>

theorem validateFileType_iff:
  "validateFileType mime \<longleftrightarrow>
     mime = asc ''application/pdf'' \<or> mime = asc ''image/jpeg'' \<or>
     mime = asc ''image/jpg'' \<or> mime = asc ''image/png''"
  by (auto simp: validateFileType_def)

subsection \<open>API keys\<close>

lemma hexRun_iff: "hexRun n s \<longleftrightarrow> length s = n \<and> list_all hexClass s"
  by (induction n s rule: hexRun.induct) auto

lemma hexClass_iff: "hexClass c \<longleftrightarrow> c \<in> hexDigits"
  unfolding hexClass_def hexDigits_def asc_def
  by (simp add: word_le_nat_alt word_unat_eq_iff) arith

text \<open>
  C7. \<open>validateApiKey\<close> is true exactly on the strings of 32 hexadecimal digits, in
  either case; on every other string, the empty one included, it returns false (the
  function is total: there is no error to raise).
\<close>

theorem validateApiKey_iff:
  "validateApiKey key \<longleftrightarrow> length key = 32 \<and> set key \<subseteq> hexDigits"
proof -
  have "list_all hexClass key \<longleftrightarrow> set key \<subseteq> hexDigits"
    by (auto simp: list_all_iff hexClass_iff)
  moreover have "key = [] \<Longrightarrow> length key \<noteq> 32"
    by simp
  ultimately show ?thesis
    unfolding validateApiKey_def hexRun_iff by auto
qed

subsection \<open>Endpoints\<close>

lemma endsWith_slash: "endsWith s (asc ''/'') \<longleftrightarrow> s \<noteq> [] \<and> last s = 0x2F"
proof (cases s rule: rev_cases)
  case Nil
  then show ?thesis by (simp add: endsWith_def asc_def)
next
  case (snoc ys y)
  then show ?thesis by (auto simp: endsWith_def asc_def)
qed

lemma normalize_snd:
  "snd (normalizeAzureEndpoint hostname_of endpoint) =
     (if endpoint = [] then Inl (Error msg_endpoint_missing)
      else if hostname_of endpoint = None then Inl (Error msg_endpoint_invalid)
      else Inr (if last endpoint = 0x2F then butlast endpoint else endpoint))"
  by (auto simp: normalizeAzureEndpoint_def endsWith_slash butlast_conv_take split: option.splits)

text \<open>
  C6. \<open>normalizeAzureEndpoint\<close> throws exactly when the input is empty (the message
  says that no endpoint was given) or the URL parser rejects it (the message says that
  the URL is invalid). Otherwise it returns the input without its last character when
  that is a slash, and the input itself when it is not: the result does not depend on
  the host name, which only decides whether a warning is logged. The example of the
  specification is the last conjunct.
\<close>

theorem normalizeAzureEndpoint_result:
  "snd (normalizeAzureEndpoint hostname_of endpoint) =
     (if endpoint = [] then Inl (Error msg_endpoint_missing)
      else if hostname_of endpoint = None then Inl (Error msg_endpoint_invalid)
      else Inr (if last endpoint = 0x2F then butlast endpoint else endpoint))
   \<and> ((\<exists>e. snd (normalizeAzureEndpoint hostname_of endpoint) = Inl e) \<longleftrightarrow>
        endpoint = [] \<or> hostname_of endpoint = None)
   \<and> (hostname_of (asc ''https://x.cognitiveservices.azure.com/'') \<noteq> None \<longrightarrow>
        snd (normalizeAzureEndpoint hostname_of (asc ''https://x.cognitiveservices.azure.com/'')) =
          Inr (asc ''https://x.cognitiveservices.azure.com''))"
proof (intro conjI)
  show "snd (normalizeAzureEndpoint hostname_of endpoint) =
     (if endpoint = [] then Inl (Error msg_endpoint_missing)
      else if hostname_of endpoint = None then Inl (Error msg_endpoint_invalid)
      else Inr (if last endpoint = 0x2F then butlast endpoint else endpoint))"
    by (rule normalize_snd)
  show "(\<exists>e. snd (normalizeAzureEndpoint hostname_of endpoint) = Inl e) \<longleftrightarrow>
        endpoint = [] \<or> hostname_of endpoint = None"
    by (simp add: normalize_snd)
  have "asc ''https://x.cognitiveservices.azure.com/'' =
        asc ''https://x.cognitiveservices.azure.com'' @ [0x2F]"
    by (simp add: asc_def)
  then show "hostname_of (asc ''https://x.cognitiveservices.azure.com/'') \<noteq> None \<longrightarrow>
        snd (normalizeAzureEndpoint hostname_of (asc ''https://x.cognitiveservices.azure.com/'')) =
          Inr (asc ''https://x.cognitiveservices.azure.com'')"
    by (simp add: normalize_snd)
qed

text \<open>
  The example with a parser that accepts it; a host outside the expected domain is
  warned about and normalised all the same; a string the parser rejects, and the empty
  string.
\<close>

theorem normalizeAzureEndpoint_result_witness:
  "snd (normalizeAzureEndpoint (\<lambda>s. Some (asc ''x.cognitiveservices.azure.com''))
          (asc ''https://x.cognitiveservices.azure.com/'')) =
     Inr (asc ''https://x.cognitiveservices.azure.com'')
   \<and> fst (normalizeAzureEndpoint (\<lambda>s. Some (asc ''example.org'')) (asc ''https://example.org/ocr/'')) =
       [msg_endpoint_warning]
   \<and> snd (normalizeAzureEndpoint (\<lambda>s. Some (asc ''example.org'')) (asc ''https://example.org/ocr/'')) =
       Inr (asc ''https://example.org/ocr'')
   \<and> snd (normalizeAzureEndpoint (\<lambda>s. None) (asc ''not a url'')) = Inl (Error msg_endpoint_invalid)
   \<and> snd (normalizeAzureEndpoint (\<lambda>s. None) []) = Inl (Error msg_endpoint_missing)"
proof -
  have "snd (normalizeAzureEndpoint (\<lambda>s. Some (asc ''x.cognitiveservices.azure.com''))
          (asc ''https://x.cognitiveservices.azure.com/'')) =
     Inr (asc ''https://x.cognitiveservices.azure.com'')"
    by (rule normalizeAzureEndpoint_result
          [of "\<lambda>s. Some (asc ''x.cognitiveservices.azure.com'')" "[]",
           THEN conjunct2, THEN conjunct2, THEN mp]) simp
  moreover have "fst (normalizeAzureEndpoint (\<lambda>s. Some (asc ''example.org''))
      (asc ''https://example.org/ocr/'')) = [msg_endpoint_warning]"
    by code_simp
  moreover have "snd (normalizeAzureEndpoint (\<lambda>s. Some (asc ''example.org''))
      (asc ''https://example.org/ocr/'')) = Inr (asc ''https://example.org/ocr'')"
    by code_simp
  moreover have "snd (normalizeAzureEndpoint (\<lambda>s. None) (asc ''not a url'')) =
      Inl (Error msg_endpoint_invalid)"
    by code_simp
  moreover have "snd (normalizeAzureEndpoint (\<lambda>s. None) []) = Inl (Error msg_endpoint_missing)"
    by code_simp
  ultimately show ?thesis by blast
qed

subsection \<open>Error translation\<close>

text \<open>
  C3, as the code has it. The four status codes 401, 403, 404 and 429 have fixed
  messages whatever the body. For any other status the value of
  \<open>responseBody && responseBody.error\<close> decides, and it counts as an error only when
  it is truthy: an object with a code and a message gives the form with both (when both
  print), a non-empty string is wrapped, any other truthy value is stringified, and a
  falsy one (no body, no error, the empty string, 0, false, null) gives the message with
  the status and the status text. When the body of the \<open>try\<close> block throws, the
  result is the message with the status alone; the function itself never throws.
\<close>

theorem extractAzureErrorInfo_chain:
  "(status resp \<in> {401, 403, 404, 429} \<longrightarrow>
      extractAzureErrorInfo resp body =
        (if status resp = 401 then msg_401 else if status resp = 403 then msg_403
         else if status resp = 404 then msg_404 else msg_429))
   \<and> (status resp \<notin> {401, 403, 404, 429} \<longrightarrow>
        (truthy body \<and> get_prop body (asc ''error'') = Inr (Obj kvs) \<and>
         map_of kvs (asc ''code'') = Some c \<and> map_of kvs (asc ''message'') = Some m \<and>
         to_string c = Inr ct \<and> to_string m = Inr mt \<longrightarrow>
           extractAzureErrorInfo resp body = api_error @ asc '' ('' @ ct @ asc ''): '' @ mt)
      \<and> (truthy body \<and> get_prop body (asc ''error'') = Inr (Str s) \<and> s \<noteq> [] \<longrightarrow>
           extractAzureErrorInfo resp body = api_error @ asc '': '' @ s)
      \<and> (truthy body \<and> get_prop body (asc ''error'') = Inr err \<and> truthy err \<and>
         (\<forall>t. err \<noteq> Str t) \<and> \<not> (has_prop err (asc ''code'') \<and> has_prop err (asc ''message'')) \<longrightarrow>
           extractAzureErrorInfo resp body = api_error @ asc '': '' @ stringify_text err)
      \<and> (\<not> truthy body \<or> (\<exists>x. get_prop body (asc ''error'') = Inr x \<and> \<not> truthy x) \<longrightarrow>
           extractAzureErrorInfo resp body =
             api_error @ asc '' ('' @ dec (status resp) @ asc ''): '' @ statusText resp)
      \<and> (extractAzureErrorInfo_try resp body = Inl e \<longrightarrow>
           extractAzureErrorInfo resp body = api_error @ asc '' ('' @ dec (status resp) @ asc '')''))"
proof (intro conjI impI)
  assume "status resp \<in> {401, 403, 404, 429}"
  then show "extractAzureErrorInfo resp body =
        (if status resp = 401 then msg_401 else if status resp = 403 then msg_403
         else if status resp = 404 then msg_404 else msg_429)"
    by (auto simp: extractAzureErrorInfo_def extractAzureErrorInfo_try_def)
next
  assume "status resp \<notin> {401, 403, 404, 429}"
    and "truthy body \<and> get_prop body (asc ''error'') = Inr (Obj kvs) \<and>
         map_of kvs (asc ''code'') = Some c \<and> map_of kvs (asc ''message'') = Some m \<and>
         to_string c = Inr ct \<and> to_string m = Inr mt"
  then show "extractAzureErrorInfo resp body = api_error @ asc '' ('' @ ct @ asc ''): '' @ mt"
    by (simp add: extractAzureErrorInfo_def extractAzureErrorInfo_try_def)
next
  assume "status resp \<notin> {401, 403, 404, 429}"
    and "truthy body \<and> get_prop body (asc ''error'') = Inr (Str s) \<and> s \<noteq> []"
  then show "extractAzureErrorInfo resp body = api_error @ asc '': '' @ s"
    by (simp add: extractAzureErrorInfo_def extractAzureErrorInfo_try_def)
next
  assume "status resp \<notin> {401, 403, 404, 429}"
    and "truthy body \<and> get_prop body (asc ''error'') = Inr err \<and> truthy err \<and>
         (\<forall>t. err \<noteq> Str t) \<and> \<not> (has_prop err (asc ''code'') \<and> has_prop err (asc ''message''))"
  then show "extractAzureErrorInfo resp body = api_error @ asc '': '' @ stringify_text err"
    by (cases err) (auto simp: extractAzureErrorInfo_def extractAzureErrorInfo_try_def)
next
  assume "status resp \<notin> {401, 403, 404, 429}"
    and "\<not> truthy body \<or> (\<exists>x. get_prop body (asc ''error'') = Inr x \<and> \<not> truthy x)"
  then show "extractAzureErrorInfo resp body =
             api_error @ asc '' ('' @ dec (status resp) @ asc ''): '' @ statusText resp"
    by (auto simp: extractAzureErrorInfo_def extractAzureErrorInfo_try_def)
next
  assume "extractAzureErrorInfo_try resp body = Inl e"
  then show "extractAzureErrorInfo resp body = api_error @ asc '' ('' @ dec (status resp) @ asc '')''"
    by (simp add: extractAzureErrorInfo_def)
qed

text \<open>
  The claim C3 as stated wraps every string error. An error that is the empty string is
  falsy: the code answers with the status and the status text, not with the wrapped
  (empty) string.
\<close>

theorem extractAzureErrorInfo_empty_string:
  "extractAzureErrorInfo server_error (Obj [(asc ''error'', Str [])]) =
     api_error @ asc '' (500): Internal Server Error''
   \<and> extractAzureErrorInfo server_error (Obj [(asc ''error'', Str [])]) \<noteq> api_error @ asc '': ''"
  by code_simp





text \<open>One reply for each line of the chain.\<close>

theorem extractAzureErrorInfo_chain_witness:
  "extractAzureErrorInfo unauthorized (Obj [(asc ''error'', Obj coded_error)]) = msg_401
   \<and> extractAzureErrorInfo server_error (Obj [(asc ''error'', Obj coded_error)]) =
       api_error @ asc '' (X): Y''
   \<and> extractAzureErrorInfo server_error (Obj [(asc ''error'', Str (asc ''quota''))]) =
       api_error @ asc '': quota''
   \<and> extractAzureErrorInfo server_error (Obj [(asc ''error'', Arr [Num 1, Bool True])]) =
       api_error @ asc '': [1,true]''
   \<and> extractAzureErrorInfo server_error (Obj []) =
       api_error @ asc '' (500): Internal Server Error''
   \<and> extractAzureErrorInfo_try server_error (Obj [(asc ''error'', Obj unprintable_error)]) =
       Inl TypeError
   \<and> extractAzureErrorInfo server_error (Obj [(asc ''error'', Obj unprintable_error)]) =
       api_error @ asc '' (500)''"
proof -
  have other: "status server_error \<notin> {401, 403, 404, 429}"
    by (simp add: server_error_def)
  note chain = extractAzureErrorInfo_chain [where resp = server_error, THEN conjunct2, THEN mp, OF other]
  have "status unauthorized \<in> {401, 403, 404, 429}"
    by (simp add: unauthorized_def)
  from extractAzureErrorInfo_chain [where resp = unauthorized, THEN conjunct1, THEN mp, OF this]
  have 1: "extractAzureErrorInfo unauthorized (Obj [(asc ''error'', Obj coded_error)]) = msg_401"
    by (simp add: unauthorized_def)
  have "truthy (Obj [(asc ''error'', Obj coded_error)]) \<and>
        get_prop (Obj [(asc ''error'', Obj coded_error)]) (asc ''error'') = Inr (Obj coded_error) \<and>
        map_of coded_error (asc ''code'') = Some (Str (asc ''X'')) \<and>
        map_of coded_error (asc ''message'') = Some (Str (asc ''Y'')) \<and>
        to_string (Str (asc ''X'')) = Inr (asc ''X'') \<and> to_string (Str (asc ''Y'')) = Inr (asc ''Y'')"
    by code_simp
  from chain [THEN conjunct1, THEN mp, OF this]
  have 2: "extractAzureErrorInfo server_error (Obj [(asc ''error'', Obj coded_error)]) =
       api_error @ asc '' (X): Y''"
    by (simp add: asc_def)
  have "truthy (Obj [(asc ''error'', Str (asc ''quota''))]) \<and>
        get_prop (Obj [(asc ''error'', Str (asc ''quota''))]) (asc ''error'') = Inr (Str (asc ''quota'')) \<and>
        asc ''quota'' \<noteq> []"
    by code_simp
  from chain [THEN conjunct2, THEN conjunct1, THEN mp, OF this]
  have 3: "extractAzureErrorInfo server_error (Obj [(asc ''error'', Str (asc ''quota''))]) =
       api_error @ asc '': quota''"
    by (simp add: asc_def)
  have "truthy (Obj [(asc ''error'', Arr [Num 1, Bool True])]) \<and>
        get_prop (Obj [(asc ''error'', Arr [Num 1, Bool True])]) (asc ''error'') =
          Inr (Arr [Num 1, Bool True]) \<and>
        truthy (Arr [Num 1, Bool True]) \<and> (\<forall>t. Arr [Num 1, Bool True] \<noteq> Str t) \<and>
        \<not> (has_prop (Arr [Num 1, Bool True]) (asc ''code'') \<and>
           has_prop (Arr [Num 1, Bool True]) (asc ''message''))"
    by simp
  from chain [THEN conjunct2, THEN conjunct2, THEN conjunct1, THEN mp, OF this]
  have "extractAzureErrorInfo server_error (Obj [(asc ''error'', Arr [Num 1, Bool True])]) =
       api_error @ asc '': '' @ stringify_text (Arr [Num 1, Bool True])" .
  moreover have "stringify_text (Arr [Num 1, Bool True]) = asc ''[1,true]''"
    by code_simp
  ultimately have 4: "extractAzureErrorInfo server_error (Obj [(asc ''error'', Arr [Num 1, Bool True])]) =
       api_error @ asc '': [1,true]''"
    by (simp add: asc_def)
  have "\<not> truthy (Obj []) \<or> (\<exists>x. get_prop (Obj []) (asc ''error'') = Inr x \<and> \<not> truthy x)"
    by simp
  from chain [THEN conjunct2, THEN conjunct2, THEN conjunct2, THEN conjunct1, THEN mp, OF this]
  have "extractAzureErrorInfo server_error (Obj []) =
       api_error @ asc '' ('' @ dec (status server_error) @ asc ''): '' @ statusText server_error" .
  moreover have "dec (status server_error) = asc ''500''"
    by code_simp
  ultimately have 5: "extractAzureErrorInfo server_error (Obj []) =
       api_error @ asc '' (500): Internal Server Error''"
    by (simp add: asc_def server_error_def)
  have 6: "extractAzureErrorInfo_try server_error (Obj [(asc ''error'', Obj unprintable_error)]) =
       Inl TypeError"
    by code_simp
  from chain [THEN conjunct2, THEN conjunct2, THEN conjunct2, THEN conjunct2, THEN mp, OF this]
  have "extractAzureErrorInfo server_error (Obj [(asc ''error'', Obj unprintable_error)]) =
       api_error @ asc '' ('' @ dec (status server_error) @ asc '')''" .
  moreover have "dec (status server_error) = asc ''500''"
    by code_simp
  ultimately have 7: "extractAzureErrorInfo server_error (Obj [(asc ''error'', Obj unprintable_error)]) =
       api_error @ asc '' (500)''"
    by (simp add: asc_def)
  from 1 2 3 4 5 6 7 show ?thesis by blast
qed

subsection \<open>The handlers of the extractors\<close>

text \<open>
  C4. When the body of \<open>extractTextFromAnalysisResult\<close> throws, the function returns
  the fixed fallback string; when the body of \<open>extractStructuredData\<close> throws, the
  function returns \<open>null\<close>. Neither raises: the structured extractor is a total
  function into values, and the text extractor never has the outcome \<open>Thrown\<close>.
\<close>

theorem extraction_never_raises:
  "(extractText_try result = Thrown e \<longrightarrow> extractTextFromAnalysisResult result = Returned fallback_text)
   \<and> (extractStructuredData_try result = Inl e' \<longrightarrow> extractStructuredData result = Null)
   \<and> extractTextFromAnalysisResult result \<noteq> Thrown e''"
  by (auto simp: extractTextFromAnalysisResult_def extractStructuredData_def split: outcome.splits)


lemma null_page_text: "extractText_try null_page = Thrown TypeError"
  by code_simp
lemma null_page_data: "extractStructuredData_try null_page = Inl TypeError"
  by code_simp

text \<open>Both bodies throw on a page that is \<open>null\<close>.\<close>

theorem extraction_never_raises_witness:
  "extractText_try null_page = Thrown TypeError
   \<and> extractTextFromAnalysisResult null_page = Returned fallback_text
   \<and> extractStructuredData_try null_page = Inl TypeError
   \<and> extractStructuredData null_page = Null"
  using extraction_never_raises [of null_page TypeError TypeError] null_page_text null_page_data
  by simp

subsection \<open>The entry guard\<close>

text \<open>
  C5. When the file type or the API key is invalid, \<open>analyzeDocument\<close> fails with an
  empty trace, so without any request to the network. The file type is checked first:
  the failure is the unsupported-file-type error when the file type is invalid, and the
  invalid-API-key error when the file type is valid and the key is not.
\<close>

theorem analyzeDocument_entry_guard:
  "\<not> validateFileType fileType \<or> \<not> validateApiKey apiKey \<Longrightarrow>
   analyzeDocument hostname_of fetch fileBase64 fileName fileType apiKey endpoint modelId =
     ([], Returned (Failure (Error
        (if \<not> validateFileType fileType then msg_unsupported else msg_invalid_key))))"
  by (auto simp: analyzeDocument_def analyzeDocument_try_def)

lemma not_pdf: "\<not> validateFileType (asc ''text/plain'')"
  by code_simp
lemma is_png: "validateFileType (asc ''image/png'')"
  by code_simp
lemma short_key: "\<not> validateApiKey (asc ''abc123'')"
  by code_simp

text \<open>A text file with a good key, and an image with a short key.\<close>

theorem analyzeDocument_entry_guard_witness:
  "analyzeDocument (\<lambda>s. None) (\<lambda>n r. None) (asc ''QUJD'') (asc ''form.txt'') (asc ''text/plain'')
      (asc ''0123456789abcdef0123456789abcdef'') (asc ''https://x.cognitiveservices.azure.com/'') [] =
     ([], Returned (Failure (Error msg_unsupported)))
   \<and> analyzeDocument (\<lambda>s. None) (\<lambda>n r. None) (asc ''QUJD'') (asc ''form.png'') (asc ''image/png'')
      (asc ''abc123'') (asc ''https://x.cognitiveservices.azure.com/'') [] =
     ([], Returned (Failure (Error msg_invalid_key)))"
  using analyzeDocument_entry_guard [of "asc ''text/plain''" "asc ''0123456789abcdef0123456789abcdef''"
      "\<lambda>s. None" "\<lambda>n r. None" "asc ''QUJD''" "asc ''form.txt''" "asc ''https://x.cognitiveservices.azure.com/''" "[]"]
    analyzeDocument_entry_guard [of "asc ''image/png''" "asc ''abc123''"
      "\<lambda>s. None" "\<lambda>n r. None" "asc ''QUJD''" "asc ''form.png''" "asc ''https://x.cognitiveservices.azure.com/''" "[]"]
    not_pdf is_png short_key
  by simp

subsection \<open>The polling loop\<close>

lemma round_events_Suc:
  "round_events location apiKey (Suc n) =
     Delay 1000 # Fetch (GET location apiKey) # round_events location apiKey n"
  by (simp add: round_events_def)

lemma polls_rounds: "polls (round_events location apiKey n @ rest) = n + polls rest"
  by (induction n) (simp_all add: round_events_def polls_def)

lemma extractions_rounds: "extractions (round_events location apiKey n @ rest) = extractions rest"
  by (induction n) (simp_all add: round_events_def extractions_def)

lemma paced_rounds: "paced (round_events location apiKey n @ rest) = paced rest"
  by (induction n) (simp_all add: round_events_def)

lemma pending_continue: "pending reply \<Longrightarrow> poll_reply reply = Inr Continue"
  by (auto simp: pending_def reply_status_def poll_reply_def
      split: option.splits if_splits sum.splits)

lemma status_object: "get_prop v name = Inr (Str s) \<Longrightarrow> s \<noteq> [] \<Longrightarrow> truthy v"
  by (cases v) auto

lemma succeeded_done:
  "succeeded reply \<Longrightarrow> \<exists>r. poll_reply reply = Inr (Done r) \<and> truthy r \<and> json (the reply) = Some r"
  apply (auto simp: succeeded_def reply_status_def poll_reply_def
      split: option.splits if_splits sum.splits)
  apply (erule status_object)
  apply (simp add: asc_def)
  done

lemma poll_loop_shape:
  "\<exists>n \<le> maxAttempts - attempts.
     fst (poll_loop fetch location apiKey attempts) = round_events location apiKey n"
proof (induction fetch location apiKey attempts rule: poll_loop.induct)
  case (1 fetch location apiKey attempts)
  show ?case
  proof (cases "attempts < maxAttempts")
    case False
    then have "fst (poll_loop fetch location apiKey attempts) = round_events location apiKey 0"
      by (simp add: poll_loop.simps round_events_def)
    then show ?thesis by blast
  next
    case True
    show ?thesis
    proof (cases "poll_reply (fetch (Suc attempts) (GET location apiKey))")
      case (Inl e)
      with True have "fst (poll_loop fetch location apiKey attempts) = round_events location apiKey 1"
        by (simp add: poll_loop.simps [of fetch location apiKey attempts] round_events_def)
      moreover from True have "1 \<le> maxAttempts - attempts" by simp
      ultimately show ?thesis by blast
    next
      case (Inr step)
      show ?thesis
      proof (cases step)
        case (Done r)
        with True Inr have "fst (poll_loop fetch location apiKey attempts) = round_events location apiKey 1"
          by (simp add: poll_loop.simps [of fetch location apiKey attempts] round_events_def)
        moreover from True have "1 \<le> maxAttempts - attempts" by simp
        ultimately show ?thesis by blast
      next
        case Continue
        from "1.IH" [OF True Inr Continue] obtain n where
          n: "n \<le> maxAttempts - Suc attempts"
          "fst (poll_loop fetch location apiKey (Suc attempts)) = round_events location apiKey n"
          by blast
        obtain events out where
          rest: "poll_loop fetch location apiKey (Suc attempts) = (events, out)"
          by fastforce
        with n(2) have "events = round_events location apiKey n"
          by simp
        with True Inr Continue rest
        have "fst (poll_loop fetch location apiKey attempts) = round_events location apiKey (Suc n)"
          by (simp add: poll_loop.simps [of fetch location apiKey attempts] round_events_Suc)
        moreover from True n(1) have "Suc n \<le> maxAttempts - attempts" by simp
        ultimately show ?thesis by blast
      qed
    qed
  qed
qed

lemma poll_loop_exhausted:
  "attempts \<le> maxAttempts \<Longrightarrow>
   (\<forall>j. attempts < j \<and> j \<le> maxAttempts \<longrightarrow> pending (fetch j (GET location apiKey))) \<Longrightarrow>
   poll_loop fetch location apiKey attempts =
     (round_events location apiKey (maxAttempts - attempts), Inr Null)"
proof (induction fetch location apiKey attempts rule: poll_loop.induct)
  case (1 fetch location apiKey attempts)
  show ?case
  proof (cases "attempts < maxAttempts")
    case False
    with "1.prems" have "maxAttempts - attempts = 0"
      by simp
    with False show ?thesis
      by (subst poll_loop.simps) (simp add: round_events_def)
  next
    case True
    with "1.prems" have c: "poll_reply (fetch (Suc attempts) (GET location apiKey)) = Inr Continue"
      by (intro pending_continue) simp
    from True "1.prems" have
      "poll_loop fetch location apiKey (Suc attempts) =
         (round_events location apiKey (maxAttempts - Suc attempts), Inr Null)"
      by (intro "1.IH" [OF True c]) auto
    moreover from True have "maxAttempts - attempts = Suc (maxAttempts - Suc attempts)"
      by simp
    ultimately show ?thesis
      using True c
      by (simp add: poll_loop.simps [of fetch location apiKey attempts] round_events_Suc)
  qed
qed

lemma poll_loop_succeeds:
  "attempts < k \<Longrightarrow> k \<le> maxAttempts \<Longrightarrow>
   (\<forall>j. attempts < j \<and> j < k \<longrightarrow> pending (fetch j (GET location apiKey))) \<Longrightarrow>
   poll_reply (fetch k (GET location apiKey)) = Inr (Done r) \<Longrightarrow>
   poll_loop fetch location apiKey attempts = (round_events location apiKey (k - attempts), Inr r)"
proof (induction fetch location apiKey attempts rule: poll_loop.induct)
  case (1 fetch location apiKey attempts)
  from "1.prems" have lt: "attempts < maxAttempts" by simp
  show ?case
  proof (cases "k = Suc attempts")
    case True
    with "1.prems" lt show ?thesis
      by (simp add: poll_loop.simps [of fetch location apiKey attempts] round_events_def)
  next
    case False
    with "1.prems" have c: "poll_reply (fetch (Suc attempts) (GET location apiKey)) = Inr Continue"
      by (intro pending_continue) simp
    from False "1.prems" have
      "poll_loop fetch location apiKey (Suc attempts) =
         (round_events location apiKey (k - Suc attempts), Inr r)"
      by (intro "1.IH" [OF lt c]) auto
    moreover from False "1.prems" have "k - attempts = Suc (k - Suc attempts)"
      by simp
    ultimately show ?thesis
      using lt c
      by (simp add: poll_loop.simps [of fetch location apiKey attempts] round_events_Suc)
  qed
qed


lemma submit_not_poll: "\<not> is_poll (Fetch (submit_request baseEndpoint modelId apiKey fileBase64))"
  by (simp add: submit_request_def)

lemma try_cases:
  obtains (early) e where
      "analyzeDocument_try hostname_of fetch fileBase64 fileName fileType apiKey endpoint modelId =
         ([], Thrown e)"
  | (refused) request e where
      "analyzeDocument_try hostname_of fetch fileBase64 fileName fileType apiKey endpoint modelId =
         ([Fetch request], Thrown e)" "\<not> is_poll (Fetch request)"
  | (polled) location where
      "submitted hostname_of fetch fileBase64 fileType apiKey endpoint modelId location"
proof (cases "\<exists>location. submitted hostname_of fetch fileBase64 fileType apiKey endpoint modelId location")
  case True
  then show ?thesis using polled by blast
next
  case False
  then have "(\<exists>e. analyzeDocument_try hostname_of fetch fileBase64 fileName fileType apiKey endpoint modelId =
         ([], Thrown e)) \<or>
     (\<exists>b m e. analyzeDocument_try hostname_of fetch fileBase64 fileName fileType apiKey endpoint modelId =
         ([Fetch (submit_request b m apiKey fileBase64)], Thrown e))"
    by (auto simp: analyzeDocument_try_def submitted_def Let_def
        split: sum.splits option.splits)
  then show ?thesis
    using early refused submit_not_poll by metis
qed

lemma try_polled:
  assumes "submitted hostname_of fetch fileBase64 fileType apiKey endpoint modelId location"
  obtains request where "\<not> is_poll (Fetch request)"
    "analyzeDocument_try hostname_of fetch fileBase64 fileName fileType apiKey endpoint modelId =
     (case poll_loop fetch location apiKey 0 of
        (events, Inl e) \<Rightarrow> (Fetch request # events, Thrown e)
      | (events, Inr analysisResult) \<Rightarrow>
          if \<not> truthy analysisResult then
            (Fetch request # events, Thrown (Error msg_timeout))
          else
            (Fetch request # events @
               [ExtractText analysisResult, ExtractStructured analysisResult],
             bind (extractTextFromAnalysisResult analysisResult) (\<lambda>extractedText.
             Returned (extractedText, extractStructuredData analysisResult))))"
proof -
  from assms obtain baseEndpoint where
    base: "snd (normalizeAzureEndpoint hostname_of endpoint) = Inr baseEndpoint"
    by (auto simp: submitted_def split: sum.splits)
  let ?request = "submit_request baseEndpoint (default_model modelId) apiKey fileBase64"
  from assms base have
    "analyzeDocument_try hostname_of fetch fileBase64 fileName fileType apiKey endpoint modelId =
     (case poll_loop fetch location apiKey 0 of
        (events, Inl e) \<Rightarrow> (Fetch ?request # events, Thrown e)
      | (events, Inr analysisResult) \<Rightarrow>
          if \<not> truthy analysisResult then
            (Fetch ?request # events, Thrown (Error msg_timeout))
          else
            (Fetch ?request # events @
               [ExtractText analysisResult, ExtractStructured analysisResult],
             bind (extractTextFromAnalysisResult analysisResult) (\<lambda>extractedText.
             Returned (extractedText, extractStructuredData analysisResult))))"
    by (auto simp: analyzeDocument_try_def submitted_def Let_def split: option.splits)
  with submit_not_poll that show ?thesis
    by blast
qed

lemma fst_analyzeDocument:
  "fst (analyzeDocument hostname_of fetch fileBase64 fileName fileType apiKey endpoint modelId) =
   fst (analyzeDocument_try hostname_of fetch fileBase64 fileName fileType apiKey endpoint modelId)"
  by (simp add: analyzeDocument_def split: prod.splits outcome.splits)

lemma snd_analyzeDocument:
  "snd (analyzeDocument hostname_of fetch fileBase64 fileName fileType apiKey endpoint modelId) =
   (case snd (analyzeDocument_try hostname_of fetch fileBase64 fileName fileType apiKey endpoint modelId) of
      Returned (content, structuredData) \<Rightarrow> Returned (Success content structuredData)
    | Thrown e \<Rightarrow> Returned (Failure e)
    | Unmodelled \<Rightarrow> Unmodelled)"
  by (simp add: analyzeDocument_def split: prod.splits outcome.splits)

lemma polls_simps:
  "polls [] = 0" "polls (Fetch request # events) = (if is_poll (Fetch request) then 1 else 0) + polls events"
  "polls (events @ [ExtractText r, ExtractStructured r]) = polls events"
  by (simp_all add: polls_def)

lemma extractions_simps:
  "extractions [] = 0" "extractions (Fetch request # events) = extractions events"
  "extractions (events @ [ExtractText r, ExtractStructured r]) = Suc (extractions events)"
  by (simp_all add: extractions_def)

lemma polls_rounds0: "polls (round_events location apiKey n) = n"
  using polls_rounds [of location apiKey n "[]"] by (simp add: polls_def)

lemma extractions_rounds0: "extractions (round_events location apiKey n) = 0"
  using extractions_rounds [of location apiKey n "[]"] by (simp add: extractions_def)

lemma paced_rounds0: "paced (round_events location apiKey n)"
  using paced_rounds [of location apiKey n "[]"] by simp

lemma paced_run:
  "\<not> is_poll (Fetch request) \<Longrightarrow> paced (Fetch request # events) = paced events"
  by (cases request) simp_all

lemma trace_bound:
  "polls (fst (analyzeDocument_try hostname_of fetch fileBase64 fileName fileType apiKey endpoint modelId))
     \<le> maxAttempts
   \<and> paced (fst (analyzeDocument_try hostname_of fetch fileBase64 fileName fileType apiKey endpoint modelId))"
proof (cases rule: try_cases [of hostname_of fetch fileBase64 fileName fileType apiKey endpoint modelId])
  case (early e)
  then show ?thesis by (simp add: polls_simps)
next
  case (refused request e)
  then show ?thesis by (simp add: polls_simps paced_run)
next
  case (polled location)
  from try_polled [OF this, of fileName] obtain request where
    request: "\<not> is_poll (Fetch request)" and
    run: "analyzeDocument_try hostname_of fetch fileBase64 fileName fileType apiKey endpoint modelId =
     (case poll_loop fetch location apiKey 0 of
        (events, Inl e) \<Rightarrow> (Fetch request # events, Thrown e)
      | (events, Inr analysisResult) \<Rightarrow>
          if \<not> truthy analysisResult then
            (Fetch request # events, Thrown (Error msg_timeout))
          else
            (Fetch request # events @
               [ExtractText analysisResult, ExtractStructured analysisResult],
             bind (extractTextFromAnalysisResult analysisResult) (\<lambda>extractedText.
             Returned (extractedText, extractStructuredData analysisResult))))"
    by blast
  obtain n where n: "n \<le> maxAttempts"
    "fst (poll_loop fetch location apiKey 0) = round_events location apiKey n"
    using poll_loop_shape [of 0 fetch location apiKey] by auto
  obtain events out where loop: "poll_loop fetch location apiKey 0 = (events, out)"
    by fastforce
  with n(2) have events: "events = round_events location apiKey n"
    by simp
  show ?thesis
    unfolding run loop events using n(1) request
    by (auto simp: polls_simps polls_rounds polls_rounds0 paced_run paced_rounds paced_rounds0
        split: sum.splits)
qed


text \<open>
  C1. Whatever the network answers, a run of \<open>analyzeDocument\<close> makes at most 10 poll
  requests, and each comes right after one delay of the fixed length. When the submission
  went through, attempts 1 to \<open>k - 1\<close> were pending and attempt \<open>k \<le> 10\<close> reports
  \<open>succeeded\<close>, the run makes exactly \<open>k\<close> polls, runs the text extraction exactly
  once and does not fail. When all 10 attempts are pending, the run makes 10 polls, never
  extracts, and fails with the timeout error.
\<close>

theorem polling_bounded:
  fixes hostname_of fetch fileBase64 fileName fileType apiKey endpoint modelId
  defines "run \<equiv> analyzeDocument hostname_of fetch fileBase64 fileName fileType apiKey endpoint modelId"
  shows
    "polls (fst run) \<le> 10 \<and> paced (fst run)
     \<and> (\<forall>location k.
          submitted hostname_of fetch fileBase64 fileType apiKey endpoint modelId location \<and>
          1 \<le> k \<and> k \<le> 10 \<and>
          (\<forall>j. 1 \<le> j \<and> j < k \<longrightarrow> pending (fetch j (GET location apiKey))) \<and>
          succeeded (fetch k (GET location apiKey)) \<longrightarrow>
            polls (fst run) = k \<and> extractions (fst run) = 1 \<and> (\<forall>e. snd run \<noteq> Returned (Failure e)))
     \<and> (\<forall>location.
          submitted hostname_of fetch fileBase64 fileType apiKey endpoint modelId location \<and>
          (\<forall>j. 1 \<le> j \<and> j \<le> 10 \<longrightarrow> pending (fetch j (GET location apiKey))) \<longrightarrow>
            polls (fst run) = 10 \<and> extractions (fst run) = 0 \<and>
            snd run = Returned (Failure (Error msg_timeout)))"
proof (intro conjI)
  show "polls (fst run) \<le> 10" "paced (fst run)"
    using trace_bound [of hostname_of fetch fileBase64 fileName fileType apiKey endpoint modelId]
    by (simp_all add: run_def fst_analyzeDocument maxAttempts_def)
next
  show "\<forall>location k.
          submitted hostname_of fetch fileBase64 fileType apiKey endpoint modelId location \<and>
          1 \<le> k \<and> k \<le> 10 \<and>
          (\<forall>j. 1 \<le> j \<and> j < k \<longrightarrow> pending (fetch j (GET location apiKey))) \<and>
          succeeded (fetch k (GET location apiKey)) \<longrightarrow>
            polls (fst run) = k \<and> extractions (fst run) = 1 \<and> (\<forall>e. snd run \<noteq> Returned (Failure e))"
  proof (intro allI impI)
    fix location k
    assume a: "submitted hostname_of fetch fileBase64 fileType apiKey endpoint modelId location \<and>
          1 \<le> k \<and> k \<le> 10 \<and>
          (\<forall>j. 1 \<le> j \<and> j < k \<longrightarrow> pending (fetch j (GET location apiKey))) \<and>
          succeeded (fetch k (GET location apiKey))"
    then obtain r where r: "poll_reply (fetch k (GET location apiKey)) = Inr (Done r)" "truthy r"
      using succeeded_done by blast
    from a have "\<forall>j. 0 < j \<and> j < k \<longrightarrow> pending (fetch j (GET location apiKey))"
      by auto
    with a r(1) have loop:
      "poll_loop fetch location apiKey 0 = (round_events location apiKey (k - 0), Inr r)"
      by (intro poll_loop_succeeds) (auto simp: maxAttempts_def)
    from a try_polled [of hostname_of fetch fileBase64 fileType apiKey endpoint modelId location fileName]
    obtain request where request: "\<not> is_poll (Fetch request)" and
      body: "analyzeDocument_try hostname_of fetch fileBase64 fileName fileType apiKey endpoint modelId =
        (Fetch request # round_events location apiKey k @ [ExtractText r, ExtractStructured r],
         bind (extractTextFromAnalysisResult r) (\<lambda>extractedText.
           Returned (extractedText, extractStructuredData r)))"
      using loop r(2) by auto
    have "polls (fst run) = k"
      using request
      by (simp add: run_def fst_analyzeDocument body polls_simps polls_rounds polls_rounds0)
    moreover have "extractions (fst run) = 1"
      by (simp add: run_def fst_analyzeDocument body extractions_simps extractions_rounds
          extractions_rounds0)
    moreover have "snd run \<noteq> Returned (Failure e)" for e
      by (cases "extractText_try r")
        (simp_all add: run_def snd_analyzeDocument body extractTextFromAnalysisResult_def)
    ultimately show
      "polls (fst run) = k \<and> extractions (fst run) = 1 \<and> (\<forall>e. snd run \<noteq> Returned (Failure e))"
      by blast
  qed
next
  show "\<forall>location.
          submitted hostname_of fetch fileBase64 fileType apiKey endpoint modelId location \<and>
          (\<forall>j. 1 \<le> j \<and> j \<le> 10 \<longrightarrow> pending (fetch j (GET location apiKey))) \<longrightarrow>
            polls (fst run) = 10 \<and> extractions (fst run) = 0 \<and>
            snd run = Returned (Failure (Error msg_timeout))"
  proof (intro allI impI)
    fix location
    assume a: "submitted hostname_of fetch fileBase64 fileType apiKey endpoint modelId location \<and>
          (\<forall>j. 1 \<le> j \<and> j \<le> 10 \<longrightarrow> pending (fetch j (GET location apiKey)))"
    then have "\<forall>j. 0 < j \<and> j \<le> maxAttempts \<longrightarrow> pending (fetch j (GET location apiKey))"
      by (auto simp: maxAttempts_def)
    then have loop: "poll_loop fetch location apiKey 0 =
        (round_events location apiKey (maxAttempts - 0), Inr Null)"
      by (intro poll_loop_exhausted) auto
    from a try_polled [of hostname_of fetch fileBase64 fileType apiKey endpoint modelId location fileName]
    obtain request where request: "\<not> is_poll (Fetch request)" and
      body: "analyzeDocument_try hostname_of fetch fileBase64 fileName fileType apiKey endpoint modelId =
        (Fetch request # round_events location apiKey maxAttempts, Thrown (Error msg_timeout))"
      using loop by auto
    show "polls (fst run) = 10 \<and> extractions (fst run) = 0 \<and>
            snd run = Returned (Failure (Error msg_timeout))"
      using request
      by (simp add: run_def fst_analyzeDocument snd_analyzeDocument body polls_simps polls_rounds0
          extractions_simps extractions_rounds0 maxAttempts_def)
  qed
qed


lemma pending_running: "pending (Some running)"
  by code_simp

lemma succeeded_finished: "succeeded (Some finished)"
  by code_simp

text \<open>
  Nine replies \<open>running\<close> and then \<open>succeeded\<close>: ten polls, one extraction, the
  text of the example table. Only \<open>running\<close>: ten polls, no extraction, the timeout.
\<close>

theorem polling_bounded_witness:
  "polls (fst (analyzeDocument azure_host (slow_service 10) (asc ''QUJD'') (asc ''form.png'')
      (asc ''image/png'') (asc ''0123456789abcdef0123456789ABCDEF'')
      (asc ''https://x.cognitiveservices.azure.com/'') [])) = 10
   \<and> extractions (fst (analyzeDocument azure_host (slow_service 10) (asc ''QUJD'') (asc ''form.png'')
      (asc ''image/png'') (asc ''0123456789abcdef0123456789ABCDEF'')
      (asc ''https://x.cognitiveservices.azure.com/'') [])) = 1
   \<and> snd (analyzeDocument azure_host (slow_service 10) (asc ''QUJD'') (asc ''form.png'')
      (asc ''image/png'') (asc ''0123456789abcdef0123456789ABCDEF'')
      (asc ''https://x.cognitiveservices.azure.com/'') []) =
      Returned (Success (tables_header @ table_title 0 @ asc ''A | '' @ nl @ asc '' | B'')
        (extractStructuredData example_result))
   \<and> polls (fst (analyzeDocument azure_host stuck_service (asc ''QUJD'') (asc ''form.png'')
      (asc ''image/png'') (asc ''0123456789abcdef0123456789ABCDEF'')
      (asc ''https://x.cognitiveservices.azure.com/'') [])) = 10
   \<and> extractions (fst (analyzeDocument azure_host stuck_service (asc ''QUJD'') (asc ''form.png'')
      (asc ''image/png'') (asc ''0123456789abcdef0123456789ABCDEF'')
      (asc ''https://x.cognitiveservices.azure.com/'') [])) = 0
   \<and> snd (analyzeDocument azure_host stuck_service (asc ''QUJD'') (asc ''form.png'')
      (asc ''image/png'') (asc ''0123456789abcdef0123456789ABCDEF'')
      (asc ''https://x.cognitiveservices.azure.com/'') []) = Returned (Failure (Error msg_timeout))"
proof -
  let ?location = "asc ''https://x.cognitiveservices.azure.com/operations/1''"
  let ?key = "asc ''0123456789abcdef0123456789ABCDEF''"
  have slow: "submitted azure_host (slow_service 10) (asc ''QUJD'') (asc ''image/png'') ?key
      (asc ''https://x.cognitiveservices.azure.com/'') [] ?location"
    by code_simp
  have stuck: "submitted azure_host stuck_service (asc ''QUJD'') (asc ''image/png'') ?key
      (asc ''https://x.cognitiveservices.azure.com/'') [] ?location"
    by code_simp
  have "\<forall>j. 1 \<le> j \<and> j < 10 \<longrightarrow> pending (slow_service 10 j (GET ?location ?key))"
    by (simp add: slow_service_def pending_running)
  moreover have "succeeded (slow_service 10 10 (GET ?location ?key))"
    by (simp add: slow_service_def succeeded_finished)
  ultimately have
    "polls (fst (analyzeDocument azure_host (slow_service 10) (asc ''QUJD'') (asc ''form.png'')
      (asc ''image/png'') ?key (asc ''https://x.cognitiveservices.azure.com/'') [])) = 10
     \<and> extractions (fst (analyzeDocument azure_host (slow_service 10) (asc ''QUJD'') (asc ''form.png'')
      (asc ''image/png'') ?key (asc ''https://x.cognitiveservices.azure.com/'') [])) = 1
     \<and> (\<forall>e. snd (analyzeDocument azure_host (slow_service 10) (asc ''QUJD'') (asc ''form.png'')
      (asc ''image/png'') ?key (asc ''https://x.cognitiveservices.azure.com/'') []) \<noteq>
        Returned (Failure e))"
    using slow
    by (intro polling_bounded [THEN conjunct2, THEN conjunct2, THEN conjunct1, THEN spec,
          THEN spec, THEN mp, of _ _ _ _ _ _ _ ?location 10]) simp
  moreover have "snd (analyzeDocument azure_host (slow_service 10) (asc ''QUJD'') (asc ''form.png'')
      (asc ''image/png'') ?key (asc ''https://x.cognitiveservices.azure.com/'') []) =
      Returned (Success (tables_header @ table_title 0 @ asc ''A | '' @ nl @ asc '' | B'')
        (extractStructuredData example_result))"
    by code_simp
  moreover have "\<forall>j. 1 \<le> j \<and> j \<le> 10 \<longrightarrow> pending (stuck_service j (GET ?location ?key))"
    by (simp add: stuck_service_def pending_running)
  with stuck have
    "polls (fst (analyzeDocument azure_host stuck_service (asc ''QUJD'') (asc ''form.png'')
      (asc ''image/png'') ?key (asc ''https://x.cognitiveservices.azure.com/'') [])) = 10
     \<and> extractions (fst (analyzeDocument azure_host stuck_service (asc ''QUJD'') (asc ''form.png'')
      (asc ''image/png'') ?key (asc ''https://x.cognitiveservices.azure.com/'') [])) = 0
     \<and> snd (analyzeDocument azure_host stuck_service (asc ''QUJD'') (asc ''form.png'')
      (asc ''image/png'') ?key (asc ''https://x.cognitiveservices.azure.com/'') []) =
        Returned (Failure (Error msg_timeout))"
    by (intro polling_bounded [THEN conjunct2, THEN conjunct2, THEN conjunct2, THEN spec,
          THEN mp, of _ _ _ _ _ _ _ ?location]) simp
  ultimately show ?thesis
    by blast
qed

subsection \<open>Form fields\<close>

lemma field_names:
  "asc ''pages'' \<noteq> asc ''keyValuePairs''" "asc ''tables'' \<noteq> asc ''keyValuePairs''"
  by (simp_all add: asc_def)

lemma only_pairs_text:
  "extractText_try (only_pairs [pair]) =
     bind (pair_text pair fields_header) (\<lambda>extractedText. Returned (trim (extractedText @ nl)))"
  by (cases "pair_text pair fields_header")
    (simp_all add: only_pairs_def extractText_try_def tables_section_def fields_section_def
      or_else_def field_names)

lemma only_pairs_data:
  "extractStructuredData_try (only_pairs [pair]) =
     ebind (pair_data pair) (\<lambda>entry.
       Inr (Obj [(asc ''pages'', Arr []), (asc ''tables'', Arr []),
                 (asc ''keyValuePairs'', Arr [entry])]))"
  by (cases "pair_data pair")
    (simp_all add: only_pairs_def extractStructuredData_try_def or_else_def field_names push_def)


lemma pair_line:
  assumes "get_prop pair (asc ''key'') = Inr k" "opt_get k (asc ''content'') = Inr kc"
    "get_prop pair (asc ''value'') = Inr v" "opt_get v (asc ''content'') = Inr vc"
    "to_string (or_else kc (Str unknown_field)) = Inr kt" "to_string (or_else vc (Str [])) = Inr vt"
  shows "pair_text pair acc = Returned (acc @ kt @ asc '': '' @ vt @ nl)"
  using assms by (simp add: pair_text_def)

lemma pair_entry:
  assumes "get_prop pair (asc ''key'') = Inr k" "opt_get k (asc ''content'') = Inr kc"
    "get_prop pair (asc ''value'') = Inr v" "opt_get v (asc ''content'') = Inr vc"
  shows "pair_data pair =
    Inr (Obj [(asc ''key'', or_else kc (Str [])), (asc ''value'', or_else vc (Str []))])"
  using assms by (simp add: pair_data_def)

lemma falsy_defaults:
  "x = Str [] \<or> x = Undefined \<Longrightarrow> or_else x d = d"
  by (auto simp: or_else_def)

text \<open>
  C10. Take a key-value pair and the contents that \<open>pair.key?.content\<close> and
  \<open>pair.value?.content\<close> read from it. When the key content is the empty string or is
  absent, the line that the text extractor writes for the pair starts with the
  placeholder label, while the entry that the structured extractor builds has the empty
  string as its key: so for the loop bodies, and so for the two functions on a result
  that holds this pair alone. When the value content is the empty string or is absent,
  the line ends after the colon and the entry has the empty string as its value.
\<close>

theorem empty_key_and_value:
  "get_prop pair (asc ''key'') = Inr k \<and> opt_get k (asc ''content'') = Inr kc \<and>
   get_prop pair (asc ''value'') = Inr v \<and> opt_get v (asc ''content'') = Inr vc \<longrightarrow>
     ((kc = Str [] \<or> kc = Undefined) \<and> to_string (or_else vc (Str [])) = Inr vt \<longrightarrow>
        pair_text pair text = Returned (text @ unknown_field @ asc '': '' @ vt @ nl) \<and>
        pair_data pair = Inr (Obj [(asc ''key'', Str []), (asc ''value'', or_else vc (Str []))]) \<and>
        extractTextFromAnalysisResult (only_pairs [pair]) =
          Returned (trim (fields_header @ unknown_field @ asc '': '' @ vt @ nl @ nl)) \<and>
        extractStructuredData (only_pairs [pair]) =
          Obj [(asc ''pages'', Arr []), (asc ''tables'', Arr []),
               (asc ''keyValuePairs'',
                  Arr [Obj [(asc ''key'', Str []), (asc ''value'', or_else vc (Str []))]])])
   \<and> ((vc = Str [] \<or> vc = Undefined) \<and> to_string (or_else kc (Str unknown_field)) = Inr kt \<longrightarrow>
        pair_text pair text = Returned (text @ kt @ asc '': '' @ nl) \<and>
        pair_data pair = Inr (Obj [(asc ''key'', or_else kc (Str [])), (asc ''value'', Str [])]) \<and>
        extractTextFromAnalysisResult (only_pairs [pair]) =
          Returned (trim (fields_header @ kt @ asc '': '' @ nl @ nl)) \<and>
        extractStructuredData (only_pairs [pair]) =
          Obj [(asc ''pages'', Arr []), (asc ''tables'', Arr []),
               (asc ''keyValuePairs'',
                  Arr [Obj [(asc ''key'', or_else kc (Str [])), (asc ''value'', Str [])]])])"
proof (intro impI)
  assume pair: "get_prop pair (asc ''key'') = Inr k \<and> opt_get k (asc ''content'') = Inr kc \<and>
   get_prop pair (asc ''value'') = Inr v \<and> opt_get v (asc ''content'') = Inr vc"
  note entry = pair_entry [of pair k kc v vc]
  show "((kc = Str [] \<or> kc = Undefined) \<and> to_string (or_else vc (Str [])) = Inr vt \<longrightarrow>
        pair_text pair text = Returned (text @ unknown_field @ asc '': '' @ vt @ nl) \<and>
        pair_data pair = Inr (Obj [(asc ''key'', Str []), (asc ''value'', or_else vc (Str []))]) \<and>
        extractTextFromAnalysisResult (only_pairs [pair]) =
          Returned (trim (fields_header @ unknown_field @ asc '': '' @ vt @ nl @ nl)) \<and>
        extractStructuredData (only_pairs [pair]) =
          Obj [(asc ''pages'', Arr []), (asc ''tables'', Arr []),
               (asc ''keyValuePairs'',
                  Arr [Obj [(asc ''key'', Str []), (asc ''value'', or_else vc (Str []))]])])
   \<and> ((vc = Str [] \<or> vc = Undefined) \<and> to_string (or_else kc (Str unknown_field)) = Inr kt \<longrightarrow>
        pair_text pair text = Returned (text @ kt @ asc '': '' @ nl) \<and>
        pair_data pair = Inr (Obj [(asc ''key'', or_else kc (Str [])), (asc ''value'', Str [])]) \<and>
        extractTextFromAnalysisResult (only_pairs [pair]) =
          Returned (trim (fields_header @ kt @ asc '': '' @ nl @ nl)) \<and>
        extractStructuredData (only_pairs [pair]) =
          Obj [(asc ''pages'', Arr []), (asc ''tables'', Arr []),
               (asc ''keyValuePairs'',
                  Arr [Obj [(asc ''key'', or_else kc (Str [])), (asc ''value'', Str [])]])])"
  proof (intro conjI impI)
    assume key: "(kc = Str [] \<or> kc = Undefined) \<and> to_string (or_else vc (Str [])) = Inr vt"
    then have kc: "or_else kc (Str unknown_field) = Str unknown_field" "or_else kc (Str []) = Str []"
      by (simp_all add: falsy_defaults)
    then have line: "pair_text pair acc = Returned (acc @ unknown_field @ asc '': '' @ vt @ nl)" for acc
      using pair key by (intro pair_line [of pair k kc v vc]) simp_all
    from line show "pair_text pair text = Returned (text @ unknown_field @ asc '': '' @ vt @ nl)" .
    from entry pair kc show
      "pair_data pair = Inr (Obj [(asc ''key'', Str []), (asc ''value'', or_else vc (Str []))])"
      by simp
    from line [of fields_header] show "extractTextFromAnalysisResult (only_pairs [pair]) =
          Returned (trim (fields_header @ unknown_field @ asc '': '' @ vt @ nl @ nl))"
      by (simp add: extractTextFromAnalysisResult_def only_pairs_text)
    from entry pair kc show "extractStructuredData (only_pairs [pair]) =
          Obj [(asc ''pages'', Arr []), (asc ''tables'', Arr []),
               (asc ''keyValuePairs'',
                  Arr [Obj [(asc ''key'', Str []), (asc ''value'', or_else vc (Str []))]])]"
      by (simp add: extractStructuredData_def only_pairs_data)
  next
    assume val: "(vc = Str [] \<or> vc = Undefined) \<and> to_string (or_else kc (Str unknown_field)) = Inr kt"
    then have vc: "or_else vc (Str []) = Str []"
      by (simp add: falsy_defaults)
    then have line: "pair_text pair acc = Returned (acc @ kt @ asc '': '' @ [] @ nl)" for acc
      using pair val by (intro pair_line [of pair k kc v vc]) simp_all
    from line show "pair_text pair text = Returned (text @ kt @ asc '': '' @ nl)"
      by simp
    from entry pair vc show
      "pair_data pair = Inr (Obj [(asc ''key'', or_else kc (Str [])), (asc ''value'', Str [])])"
      by simp
    from line [of fields_header] show "extractTextFromAnalysisResult (only_pairs [pair]) =
          Returned (trim (fields_header @ kt @ asc '': '' @ nl @ nl))"
      by (simp add: extractTextFromAnalysisResult_def only_pairs_text)
    from entry pair vc show "extractStructuredData (only_pairs [pair]) =
          Obj [(asc ''pages'', Arr []), (asc ''tables'', Arr []),
               (asc ''keyValuePairs'',
                  Arr [Obj [(asc ''key'', or_else kc (Str [])), (asc ''value'', Str [])]])]"
      by (simp add: extractStructuredData_def only_pairs_data)
  qed
qed

text \<open>The two example fields, alone and together, through both extractors.\<close>

theorem empty_key_and_value_witness:
  "pair_text unnamed_field [] = Returned (unknown_field @ asc '': Tanaka'' @ nl)
   \<and> pair_data unnamed_field = Inr (Obj [(asc ''key'', Str []), (asc ''value'', Str (asc ''Tanaka''))])
   \<and> extractTextFromAnalysisResult (only_pairs [unnamed_field]) =
       Returned (fields_header @ unknown_field @ asc '': Tanaka'')
   \<and> extractStructuredData (only_pairs [unnamed_field]) =
       Obj [(asc ''pages'', Arr []), (asc ''tables'', Arr []),
            (asc ''keyValuePairs'',
               Arr [Obj [(asc ''key'', Str []), (asc ''value'', Str (asc ''Tanaka''))]])]
   \<and> pair_text blank_field [] = Returned (asc ''Name: '' @ nl)
   \<and> pair_data blank_field = Inr (Obj [(asc ''key'', Str (asc ''Name'')), (asc ''value'', Str [])])
   \<and> extractTextFromAnalysisResult (only_pairs [blank_field]) =
       Returned (fields_header @ asc ''Name:'')
   \<and> extractStructuredData (only_pairs [blank_field]) =
       Obj [(asc ''pages'', Arr []), (asc ''tables'', Arr []),
            (asc ''keyValuePairs'',
               Arr [Obj [(asc ''key'', Str (asc ''Name'')), (asc ''value'', Str [])]])]
   \<and> extractTextFromAnalysisResult fields_result =
       Returned (fields_header @ unknown_field @ asc '': Tanaka'' @ nl @ asc ''Name:'')
   \<and> extractStructuredData fields_result =
       Obj [(asc ''pages'', Arr []), (asc ''tables'', Arr []),
            (asc ''keyValuePairs'',
               Arr [Obj [(asc ''key'', Str []), (asc ''value'', Str (asc ''Tanaka''))],
                    Obj [(asc ''key'', Str (asc ''Name'')), (asc ''value'', Str [])]])]"
proof -
  have "get_prop unnamed_field (asc ''key'') = Inr (Obj [(asc ''content'', Str [])]) \<and>
        opt_get (Obj [(asc ''content'', Str [])]) (asc ''content'') = Inr (Str []) \<and>
        get_prop unnamed_field (asc ''value'') = Inr (Obj [(asc ''content'', Str (asc ''Tanaka''))]) \<and>
        opt_get (Obj [(asc ''content'', Str (asc ''Tanaka''))]) (asc ''content'') =
          Inr (Str (asc ''Tanaka''))"
    by code_simp
  moreover have "(Str [] = Str [] \<or> Str [] = Undefined) \<and>
      to_string (or_else (Str (asc ''Tanaka'')) (Str [])) = Inr (asc ''Tanaka'')"
    by code_simp
  ultimately have
    "pair_text unnamed_field [] = Returned ([] @ unknown_field @ asc '': '' @ asc ''Tanaka'' @ nl) \<and>
     pair_data unnamed_field =
       Inr (Obj [(asc ''key'', Str []), (asc ''value'', or_else (Str (asc ''Tanaka'')) (Str []))]) \<and>
     extractTextFromAnalysisResult (only_pairs [unnamed_field]) =
       Returned (trim (fields_header @ unknown_field @ asc '': '' @ asc ''Tanaka'' @ nl @ nl)) \<and>
     extractStructuredData (only_pairs [unnamed_field]) =
       Obj [(asc ''pages'', Arr []), (asc ''tables'', Arr []),
            (asc ''keyValuePairs'',
               Arr [Obj [(asc ''key'', Str []),
                         (asc ''value'', or_else (Str (asc ''Tanaka'')) (Str []))]])]"
    by (rule empty_key_and_value [THEN mp, THEN conjunct1, THEN mp])
  moreover have "or_else (Str (asc ''Tanaka'')) (Str []) = Str (asc ''Tanaka'')"
    by code_simp
  moreover have "trim (fields_header @ unknown_field @ asc '': '' @ asc ''Tanaka'' @ nl @ nl) =
      fields_header @ unknown_field @ asc '': Tanaka''"
    by code_simp
  ultimately have 1:
    "pair_text unnamed_field [] = Returned (unknown_field @ asc '': Tanaka'' @ nl)"
    "pair_data unnamed_field = Inr (Obj [(asc ''key'', Str []), (asc ''value'', Str (asc ''Tanaka''))])"
    "extractTextFromAnalysisResult (only_pairs [unnamed_field]) =
       Returned (fields_header @ unknown_field @ asc '': Tanaka'')"
    "extractStructuredData (only_pairs [unnamed_field]) =
       Obj [(asc ''pages'', Arr []), (asc ''tables'', Arr []),
            (asc ''keyValuePairs'',
               Arr [Obj [(asc ''key'', Str []), (asc ''value'', Str (asc ''Tanaka''))]])]"
    by (simp_all add: asc_def)
  have "get_prop blank_field (asc ''key'') = Inr (Obj [(asc ''content'', Str (asc ''Name''))]) \<and>
        opt_get (Obj [(asc ''content'', Str (asc ''Name''))]) (asc ''content'') = Inr (Str (asc ''Name'')) \<and>
        get_prop blank_field (asc ''value'') = Inr Undefined \<and>
        opt_get Undefined (asc ''content'') = Inr Undefined"
    by code_simp
  moreover have "(Undefined = Str [] \<or> Undefined = Undefined) \<and>
      to_string (or_else (Str (asc ''Name'')) (Str unknown_field)) = Inr (asc ''Name'')"
    by code_simp
  ultimately have
    "pair_text blank_field [] = Returned ([] @ asc ''Name'' @ asc '': '' @ nl) \<and>
     pair_data blank_field =
       Inr (Obj [(asc ''key'', or_else (Str (asc ''Name'')) (Str [])), (asc ''value'', Str [])]) \<and>
     extractTextFromAnalysisResult (only_pairs [blank_field]) =
       Returned (trim (fields_header @ asc ''Name'' @ asc '': '' @ nl @ nl)) \<and>
     extractStructuredData (only_pairs [blank_field]) =
       Obj [(asc ''pages'', Arr []), (asc ''tables'', Arr []),
            (asc ''keyValuePairs'',
               Arr [Obj [(asc ''key'', or_else (Str (asc ''Name'')) (Str [])),
                         (asc ''value'', Str [])]])]"
    by (rule empty_key_and_value [THEN mp, THEN conjunct2, THEN mp])
  moreover have "or_else (Str (asc ''Name'')) (Str []) = Str (asc ''Name'')"
    by code_simp
  moreover have "trim (fields_header @ asc ''Name'' @ asc '': '' @ nl @ nl) =
      fields_header @ asc ''Name:''"
    by code_simp
  ultimately have 2:
    "pair_text blank_field [] = Returned (asc ''Name: '' @ nl)"
    "pair_data blank_field = Inr (Obj [(asc ''key'', Str (asc ''Name'')), (asc ''value'', Str [])])"
    "extractTextFromAnalysisResult (only_pairs [blank_field]) =
       Returned (fields_header @ asc ''Name:'')"
    "extractStructuredData (only_pairs [blank_field]) =
       Obj [(asc ''pages'', Arr []), (asc ''tables'', Arr []),
            (asc ''keyValuePairs'',
               Arr [Obj [(asc ''key'', Str (asc ''Name'')), (asc ''value'', Str [])]])]"
    by (simp_all add: asc_def)
  have 3: "extractTextFromAnalysisResult fields_result =
       Returned (fields_header @ unknown_field @ asc '': Tanaka'' @ nl @ asc ''Name:'')"
    by code_simp
  have 4: "extractStructuredData fields_result =
       Obj [(asc ''pages'', Arr []), (asc ''tables'', Arr []),
            (asc ''keyValuePairs'',
               Arr [Obj [(asc ''key'', Str []), (asc ''value'', Str (asc ''Tanaka''))],
                    Obj [(asc ''key'', Str (asc ''Name'')), (asc ''value'', Str [])]])]"
    by code_simp
  from 1 2 3 4 show ?thesis
    by blast
qed

subsection \<open>Table reconstruction\<close>

lemma rect_write: "rect n m g \<Longrightarrow> rect n m (write_cell g x)"
proof -
  assume g: "rect n m g"
  obtain r c s where x: "x = (r, c, s)"
    by (cases x) auto
  show ?thesis
  proof (cases "r < length g")
    case True
    with g have "length ((g ! r)[c := s]) = m"
      by (simp add: rect_def)
    with g show ?thesis
      by (auto simp: rect_def write_cell_def x dest!: set_update_subset_insert [THEN subsetD])
  next
    case False
    then have "g[r := (g ! r)[c := s]] = g"
      by (intro list_update_beyond) simp
    with g show ?thesis
      by (simp add: write_cell_def x)
  qed
qed

lemma rect_foldl: "rect n m g \<Longrightarrow> rect n m (foldl write_cell g cells)"
  by (induction cells arbitrary: g) (simp_all add: rect_write)

lemma rect_nth: "rect n m g \<Longrightarrow> r < n \<Longrightarrow> length (g ! r) = m"
  by (simp add: rect_def)

lemma write_cell_nth:
  "rect n m g \<Longrightarrow> r < n \<Longrightarrow> c < m \<Longrightarrow> r' < n \<Longrightarrow> c' < m \<Longrightarrow>
   write_cell g (r', c', s) ! r ! c = (if r' = r \<and> c' = c then s else g ! r ! c)"
  by (auto simp: write_cell_def rect_def nth_list_update)

lemma last_content_snoc:
  "last_content (cells @ [(r', c', s)]) r c = (if r' = r \<and> c' = c then s else last_content cells r c)"
  by (simp add: last_content_def)

lemma foldl_write_nth:
  "rect n m g \<Longrightarrow> \<forall>(r', c', s) \<in> set cells. r' < n \<and> c' < m \<Longrightarrow> r < n \<Longrightarrow> c < m \<Longrightarrow>
   foldl write_cell g cells ! r ! c =
     (if filter (\<lambda>(r', c', s). r' = r \<and> c' = c) cells = [] then g ! r ! c
      else last_content cells r c)"
proof (induction cells rule: rev_induct)
  case Nil
  then show ?case by simp
next
  case (snoc x cells)
  obtain r' c' s where x: "x = (r', c', s)"
    by (cases x) auto
  from snoc.prems x have range: "r' < n" "c' < m"
    by auto
  from snoc.prems have "rect n m (foldl write_cell g cells)"
    by (intro rect_foldl)
  with snoc.prems range show ?case
    using snoc.IH by (auto simp: x write_cell_nth last_content_snoc)
qed

lemma foldl_write_grid:
  assumes "\<forall>(r, c, s) \<in> set cells. r < n \<and> c < m"
  shows "foldl write_cell (replicate n (replicate m [])) cells = spec_grid n m cells"
proof -
  let ?g = "replicate n (replicate m ([]::jsstring))"
  have rect0: "rect n m ?g"
    by (simp add: rect_def)
  then have rect1: "rect n m (foldl write_cell ?g cells)"
    by (rule rect_foldl)
  show ?thesis
  proof (rule nth_equalityI)
    from rect1 show "length (foldl write_cell ?g cells) = length (spec_grid n m cells)"
      by (simp add: rect_def spec_grid_def)
  next
    fix r assume "r < length (foldl write_cell ?g cells)"
    with rect1 have r: "r < n"
      by (simp add: rect_def)
    show "foldl write_cell ?g cells ! r = spec_grid n m cells ! r"
    proof (rule nth_equalityI)
      from rect1 r show "length (foldl write_cell ?g cells ! r) = length (spec_grid n m cells ! r)"
        by (simp add: rect_nth spec_grid_def)
    next
      fix c assume "c < length (foldl write_cell ?g cells ! r)"
      with rect1 r have c: "c < m"
        by (simp add: rect_nth)
      from foldl_write_nth [OF rect0 assms r c] r c
      show "foldl write_cell ?g cells ! r ! c = spec_grid n m cells ! r ! c"
        by (auto simp: spec_grid_def last_content_def)
    qed
  qed
qed


lemma array_length_nat: "n < 2 ^ 32 \<Longrightarrow> array_length (Num (int n)) = Inr n"
  by simp

lemma array_key_index: "i < 2 ^ 32 - 1 \<Longrightarrow> array_key (Num (int i)) = Returned (Index i)"
proof -
  assume "i < 2 ^ 32 - 1"
  then have "int i < 2 ^ 32 - 1"
    by simp
  then show ?thesis
    by simp
qed

lemma make_grid_numbers:
  "n < 2 ^ 32 \<Longrightarrow> m < 2 ^ 32 \<Longrightarrow>
   make_grid (or_else (Num (int n)) (Num 0)) (or_else (Num (int m)) (Num 0)) =
     Inr (replicate n (replicate m (Str [])))"
proof -
  assume n: "n < 2 ^ 32" and m: "m < 2 ^ 32"
  have "or_else (Num (int n)) (Num 0) = Num (int n)" "or_else (Num (int m)) (Num 0) = Num (int m)"
    by (simp_all add: or_else_def)
  with n m show ?thesis
    by (simp add: make_grid_def array_length_nat del: array_length.simps)
qed

lemma or_else_Arr: "or_else (Arr xs) d = Arr xs"
  by (simp add: or_else_def)

lemma cell_viewD:
  assumes "cell_view cell = Some (r, c, s)"
  obtains content where
    "get_prop cell (asc ''rowIndex'') = Inr (Num (int r))"
    "get_prop cell (asc ''columnIndex'') = Inr (Num (int c))"
    "get_prop cell (asc ''content'') = Inr content" "or_else content (Str []) = Str s"
  using assms
  by (auto simp: cell_view_def or_else_def split: sum.splits js.splits if_splits)

lemma place_cell_view:
  assumes "cell_view cell = Some (r, c, s)" "rect n m g" "r < n" "c < m" "n < 2 ^ 32" "m < 2 ^ 32"
  shows "place_cell cell (map (map Str) g) = Returned (map (map Str) (write_cell g (r, c, s)))"
proof -
  from assms(1) obtain content where cell:
    "get_prop cell (asc ''rowIndex'') = Inr (Num (int r))"
    "get_prop cell (asc ''columnIndex'') = Inr (Num (int c))"
    "get_prop cell (asc ''content'') = Inr content" "or_else content (Str []) = Str s"
    by (rule cell_viewD)
  from assms have keys: "array_key (Num (int r)) = Returned (Index r)"
    "array_key (Num (int c)) = Returned (Index c)"
    by (auto intro!: array_key_index)
  from assms have "length g = n" "length (g ! r) = m"
    by (auto simp: rect_def)
  with assms show ?thesis
    by (simp add: place_cell_def cell keys write_cell_def map_update)
qed

lemma place_cells_view:
  assumes "map cell_view cs = map Some cells" "\<forall>(r, c, s) \<in> set cells. r < n \<and> c < m"
    "n < 2 ^ 32" "m < 2 ^ 32" "rect n m g"
  shows "forM place_cell cs (map (map Str) g) = Returned (map (map Str) (foldl write_cell g cells))"
  using assms
proof (induction cs arbitrary: cells g)
  case Nil
  then show ?case by simp
next
  case (Cons cell cs)
  then obtain x xs where cells: "cells = x # xs" "cell_view cell = Some x" "map cell_view cs = map Some xs"
    by (cases cells) auto
  obtain r c s where x: "x = (r, c, s)"
    by (cases x) auto
  from Cons.prems cells x have "r < n" "c < m"
    by auto
  with Cons.prems cells x have
    "place_cell cell (map (map Str) g) = Returned (map (map Str) (write_cell g x))"
    by (intro place_cell_view [of cell r c s n m g, folded x]) auto
  moreover from Cons.prems cells have
    "forM place_cell cs (map (map Str) (write_cell g x)) =
       Returned (map (map Str) (foldl write_cell (write_cell g x) xs))"
    by (intro Cons.IH) (auto simp: rect_write)
  ultimately show ?case
    by (simp add: cells)
qed

lemma entries_strings: "row_entries (map Str row) = Inr row"
  unfolding row_entries_def by (induction row) simp_all

lemma join_strings: "array_join sep (map Str row) = Inr (intercalate sep row)"
  by (simp add: array_join_def entries_strings)

lemma rows_text:
  "forM row_text (map (map Str) g) acc =
     Returned (acc @ concat (map (\<lambda>row. intercalate (asc '' | '') row @ nl) g))"
  by (induction g arbitrary: acc) (simp_all add: row_text_def join_strings)

lemma terminated_rows:
  "concat (map (\<lambda>row. f row @ sep) g) = (if g = [] then [] else intercalate sep (map f g) @ sep)"
proof (induction g)
  case Nil
  then show ?case by simp
next
  case (Cons row g)
  then show ?case by (cases g) simp_all
qed

lemma spec_grid_empty: "spec_grid n m cells = [] \<longleftrightarrow> n = 0"
  by (simp add: spec_grid_def)

lemma spec_grid_0: "spec_grid 0 m cells = []"
  by (simp add: spec_grid_def)

lemma section_names:
  "asc ''pages'' \<noteq> asc ''tables''" "asc ''keyValuePairs'' \<noteq> asc ''tables''"
  by (simp_all add: asc_def)

lemma only_tables_text:
  "extractText_try (only_tables [table]) =
     bind (table_text (Arr [table]) 0 tables_header) (\<lambda>extractedText. Returned (trim extractedText))"
  by (cases "table_text (Arr [table]) 0 tables_header")
    (simp_all add: only_tables_def extractText_try_def tables_section_def fields_section_def
      or_else_def section_names)

lemma table_text_view:
  assumes "elem_at tables i = Inr table"
    "get_prop table (asc ''rowCount'') = Inr (Num (int n))"
    "get_prop table (asc ''columnCount'') = Inr (Num (int m))"
    "get_prop table (asc ''cells'') = Inr (Arr cs)"
    "map cell_view cs = map Some cells" "\<forall>(r, c, s) \<in> set cells. r < n \<and> c < m"
    "n < 2 ^ 32" "m < 2 ^ 32"
  shows "table_text tables i acc =
       Returned (acc @ table_title i @ spec_rows (spec_grid n m cells) @
         (if n = 0 then [] else nl) @ nl)"
proof -
  let ?g = "replicate n (replicate m ([]::jsstring))"
  have grid: "replicate n (replicate m (Str [])) = map (map Str) ?g"
    by simp
  have "rect n m ?g"
    by (simp add: rect_def)
  with assms have "forM place_cell cs (map (map Str) ?g) =
      Returned (map (map Str) (foldl write_cell ?g cells))"
    by (intro place_cells_view) auto
  moreover from assms have "foldl write_cell ?g cells = spec_grid n m cells"
    by (intro foldl_write_grid) auto
  ultimately have "forM place_cell cs (replicate n (replicate m (Str []))) =
      Returned (map (map Str) (spec_grid n m cells))"
    by (simp only: grid)
  with assms show ?thesis
    by (simp add: table_text_def make_grid_numbers or_else_Arr rows_text terminated_rows
        spec_grid_empty spec_grid_0 spec_rows_def)
qed

text \<open>
  C2. Take a table of the result whose row and column counts are numbers \<open>n\<close> and
  \<open>m\<close> and whose cells read as sparse cells inside the grid. The text that
  \<open>extractTextFromAnalysisResult\<close> writes for it is the title of the table, then the
  dense \<open>n\<close> by \<open>m\<close> grid of the specification (empty strings, each content at its
  position, the last write winning) with the values of a row joined by \<open>" | "\<close> and the
  rows separated by newlines, then the newline that ends the last row and the one that
  ends the table: so for the loop body at any position of the list of tables, and so,
  after the final trim, for the function on a result that holds this table alone. For
  the example of the specification the grid text is \<open>"A | \n | B"\<close>, and that is how
  the text of a result that holds this table ends.
\<close>

theorem table_reconstruction:
  "(get_prop table (asc ''rowCount'') = Inr (Num (int n)) \<and>
    get_prop table (asc ''columnCount'') = Inr (Num (int m)) \<and>
    get_prop table (asc ''cells'') = Inr (Arr cs) \<and>
    map cell_view cs = map Some cells \<and> (\<forall>(r, c, s) \<in> set cells. r < n \<and> c < m) \<and>
    n < 2 ^ 32 \<and> m < 2 ^ 32 \<longrightarrow>
      (elem_at tables i = Inr table \<longrightarrow>
         table_text tables i text =
           Returned (text @ table_title i @ spec_rows (spec_grid n m cells) @
             (if n = 0 then [] else nl) @ nl))
      \<and> extractTextFromAnalysisResult (only_tables [table]) =
          Returned (trim (tables_header @ table_title 0 @ spec_rows (spec_grid n m cells) @
            (if n = 0 then [] else nl) @ nl)))
   \<and> spec_rows (spec_grid 2 2 [(0, 0, asc ''A''), (1, 1, asc ''B'')]) = asc ''A | '' @ nl @ asc '' | B''
   \<and> extractTextFromAnalysisResult example_result =
       Returned (tables_header @ table_title 0 @ asc ''A | '' @ nl @ asc '' | B'')"
proof (intro conjI impI)
  show "spec_rows (spec_grid 2 2 [(0, 0, asc ''A''), (1, 1, asc ''B'')]) =
      asc ''A | '' @ nl @ asc '' | B''"
    by code_simp
  show "extractTextFromAnalysisResult example_result =
       Returned (tables_header @ table_title 0 @ asc ''A | '' @ nl @ asc '' | B'')"
    by code_simp
next
  assume a: "get_prop table (asc ''rowCount'') = Inr (Num (int n)) \<and>
    get_prop table (asc ''columnCount'') = Inr (Num (int m)) \<and>
    get_prop table (asc ''cells'') = Inr (Arr cs) \<and>
    map cell_view cs = map Some cells \<and> (\<forall>(r, c, s) \<in> set cells. r < n \<and> c < m) \<and>
    n < 2 ^ 32 \<and> m < 2 ^ 32"
  assume "elem_at tables i = Inr table"
  with a show "table_text tables i text =
       Returned (text @ table_title i @ spec_rows (spec_grid n m cells) @
         (if n = 0 then [] else nl) @ nl)"
    by (intro table_text_view [of tables i table n m cs cells]) simp_all
next
  assume a: "get_prop table (asc ''rowCount'') = Inr (Num (int n)) \<and>
    get_prop table (asc ''columnCount'') = Inr (Num (int m)) \<and>
    get_prop table (asc ''cells'') = Inr (Arr cs) \<and>
    map cell_view cs = map Some cells \<and> (\<forall>(r, c, s) \<in> set cells. r < n \<and> c < m) \<and>
    n < 2 ^ 32 \<and> m < 2 ^ 32"
  have "elem_at (Arr [table]) 0 = Inr table"
    by simp
  with a have "table_text (Arr [table]) 0 tables_header =
       Returned (tables_header @ table_title 0 @ spec_rows (spec_grid n m cells) @
         (if n = 0 then [] else nl) @ nl)"
    by (intro table_text_view [of "Arr [table]" 0 table n m cs cells]) simp_all
  then show "extractTextFromAnalysisResult (only_tables [table]) =
          Returned (trim (tables_header @ table_title 0 @ spec_rows (spec_grid n m cells) @
            (if n = 0 then [] else nl) @ nl))"
    by (simp add: extractTextFromAnalysisResult_def only_tables_text)
qed

text \<open>
  The example table through the loop body and, alone in a result, through the function;
  and its grid text.
\<close>

theorem table_reconstruction_witness:
  "table_text (Arr [example_table]) 0 [] =
     Returned (table_title 0 @ asc ''A | '' @ nl @ asc '' | B'' @ nl @ nl)
   \<and> extractTextFromAnalysisResult (only_tables [example_table]) =
       Returned (tables_header @ table_title 0 @ asc ''A | '' @ nl @ asc '' | B'')
   \<and> spec_rows (spec_grid 2 2 [(0, 0, asc ''A''), (1, 1, asc ''B'')]) = asc ''A | '' @ nl @ asc '' | B''"
proof -
  have rows: "spec_rows (spec_grid 2 2 [(0, 0, asc ''A''), (1, 1, asc ''B'')]) =
      asc ''A | '' @ nl @ asc '' | B''"
    by code_simp
  have 1: "elem_at (Arr [example_table]) 0 = Inr example_table"
    by simp
  have 2: "get_prop example_table (asc ''rowCount'') = Inr (Num (int 2))"
    by code_simp
  have 3: "get_prop example_table (asc ''columnCount'') = Inr (Num (int 2))"
    by code_simp
  have 4: "get_prop example_table (asc ''cells'') =
       Inr (Arr [cell_of 0 0 (asc ''A''), cell_of 1 1 (asc ''B'')])"
    by code_simp
  have 5: "map cell_view [cell_of 0 0 (asc ''A''), cell_of 1 1 (asc ''B'')] =
       map Some [(0, 0, asc ''A''), (1, 1, asc ''B'')]"
    by code_simp
  have 6: "\<forall>(r, c, s) \<in> set [(0, 0, asc ''A''), (1, 1, asc ''B'')]. r < (2::nat) \<and> c < (2::nat)"
    by simp
  have 7: "(2::nat) < 2 ^ 32"
    by simp
  from 2 3 4 5 6 7 have both:
    "(elem_at (Arr [example_table]) 0 = Inr example_table \<longrightarrow>
       table_text (Arr [example_table]) 0 [] =
         Returned ([] @ table_title 0 @
           spec_rows (spec_grid 2 2 [(0, 0, asc ''A''), (1, 1, asc ''B'')]) @
           (if (2::nat) = 0 then [] else nl) @ nl))
     \<and> extractTextFromAnalysisResult (only_tables [example_table]) =
         Returned (trim (tables_header @ table_title 0 @
           spec_rows (spec_grid 2 2 [(0, 0, asc ''A''), (1, 1, asc ''B'')]) @
           (if (2::nat) = 0 then [] else nl) @ nl))"
    by (intro table_reconstruction [THEN conjunct1, THEN mp]) blast
  from both 1 have "table_text (Arr [example_table]) 0 [] =
     Returned (table_title 0 @ asc ''A | '' @ nl @ asc '' | B'' @ nl @ nl)"
    by (simp only: rows) simp
  moreover have "trim (tables_header @ table_title 0 @ (asc ''A | '' @ nl @ asc '' | B'') @ nl @ nl) =
      tables_header @ table_title 0 @ asc ''A | '' @ nl @ asc '' | B''"
    by code_simp
  with both have "extractTextFromAnalysisResult (only_tables [example_table]) =
       Returned (tables_header @ table_title 0 @ asc ''A | '' @ nl @ asc '' | B'')"
    by (simp only: rows) simp
  ultimately show ?thesis
    using rows by blast
qed

subsection \<open>Cells outside the grid\<close>

lemma returns_simps [simp]:
  "returns (Returned x)" "\<not> returns (Thrown e)" "\<not> returns Unmodelled"
  by (simp_all add: returns_def)

























text \<open>
  In a runtime with a limit the body of the loop over the rows does what the body above
  does, as long as the new text fits the limit.
\<close>

lemma row_text_within_row_text:
  "row_text_within limit row acc =
     (case row_text row acc of
        Returned t \<Rightarrow> if length t \<le> limit then Returned t else Thrown RangeError
      | Thrown e \<Rightarrow> Thrown e
      | Unmodelled \<Rightarrow> Unmodelled)"
  by (cases "array_join (asc '' | '') row")
    (simp_all add: row_text_within_def row_text_def built_def)




end
